theory Spec2Isabelle
  imports Complex_Main
begin

section \<open>Data model\<close>

text \<open>
  The timestamp columns arrive from the database driver as raw values; every read path of
  the repository passes them through \<^verbatim>\<open>new Date(...)\<close>.
\<close>

datatype DateValue = Raw int | Date int

fun new_Date :: "DateValue \<Rightarrow> DateValue" where
  "new_Date (Raw t) = Date t"
| "new_Date (Date t) = Date t"

text \<open>
  \<^verbatim>\<open>Omit<User, "id" | "createdAt" | "updatedAt">\<close> is the parent record; \<^verbatim>\<open>User\<close> extends it.
  \<open>age\<close> is optional in the create schema and nullable in the table: \<open>None\<close> stands for
  \<^verbatim>\<open>undefined\<close> in a request and for \<^verbatim>\<open>NULL\<close> in a row.
\<close>

record UserData =
  name :: string
  email :: string
  age :: "int option"

record User = UserData +
  id' :: int
  createdAt :: DateValue
  updatedAt :: DateValue

text \<open>
  \<^verbatim>\<open>Partial<Omit<User, "id" | "createdAt" | "updatedAt">>\<close>: every field may be
  \<^verbatim>\<open>undefined\<close> (\<open>None\<close>).
\<close>

record PartialUserData =
  name_opt :: "string option"
  email_opt :: "string option"
  age_opt :: "int option"

text \<open>
  Thrown values. A promise may reject with any value: an error object with its message, or
  \<^verbatim>\<open>null\<close>, or \<^verbatim>\<open>undefined\<close>, or some other value that has no \<^verbatim>\<open>message\<close> property (a string, a
  number, a plain object).
\<close>

datatype Thrown = Error string | TypeError string | ThrownNull | ThrownUndefined | ThrownOther

definition nullish :: "Thrown \<Rightarrow> bool" where
  "nullish ex = (ex = ThrownNull \<or> ex = ThrownUndefined)"

section \<open>Asynchronous computations with effects and exceptions\<close>

text \<open>
  An \<^verbatim>\<open>async\<close> function is a transformer of the world \<open>'w\<close> (database, log, ...) that either
  rejects with an error (\<open>Inl\<close>) or resolves with a value (\<open>Inr\<close>).
\<close>

type_synonym ('a, 'w) promise = "'w \<Rightarrow> (Thrown + 'a) \<times> 'w"

definition resolve :: "'a \<Rightarrow> ('a, 'w) promise" where
  "resolve x w = (Inr x, w)"

definition reject :: "Thrown \<Rightarrow> ('a, 'w) promise" where
  "reject e w = (Inl e, w)"

definition await :: "('a, 'w) promise \<Rightarrow> ('a \<Rightarrow> ('b, 'w) promise) \<Rightarrow> ('b, 'w) promise" where
  "await p k w = (case p w of (Inl e, w') \<Rightarrow> (Inl e, w') | (Inr x, w') \<Rightarrow> k x w')"

definition try_catch :: "('a, 'w) promise \<Rightarrow> (Thrown \<Rightarrow> ('a, 'w) promise) \<Rightarrow> ('a, 'w) promise" where
  "try_catch p h w = (case p w of (Inl e, w') \<Rightarrow> h e w' | (Inr x, w') \<Rightarrow> (Inr x, w'))"

text \<open>A statement with an effect only (a call of the logger), followed by the rest.\<close>

definition exec :: "('w \<Rightarrow> 'w) \<Rightarrow> ('a, 'w) promise \<Rightarrow> ('a, 'w) promise" where
  "exec f p w = p (f w)"

text \<open>
  \<^verbatim>\<open>return p\<close> inside \<^verbatim>\<open>try\<close> without \<^verbatim>\<open>await\<close>: the try block ends with the promise as
  its value, and the async function then adopts that promise outside the try block, so
  that a rejection of \<open>p\<close> does not reach the catch clause.
\<close>

definition async_return :: "(('a, 'w) promise, 'w) promise \<Rightarrow> ('a, 'w) promise" where
  "async_return pp = await pp (\<lambda>p. p)"

text \<open>
  \<^verbatim>\<open>(ex as Error).message\<close> inside a template literal. The cast does nothing at run time:
  reading a property of \<^verbatim>\<open>null\<close> or \<^verbatim>\<open>undefined\<close> raises a TypeError at that place, and a
  value without the property yields \<^verbatim>\<open>undefined\<close>, which the template prints as such.
\<close>

definition read_message :: "Thrown \<Rightarrow> (string, 'w) promise" where
  "read_message ex =
     (case ex of
        Error m \<Rightarrow> resolve m
      | TypeError m \<Rightarrow> resolve m
      | ThrownNull \<Rightarrow> reject (TypeError ''Cannot read properties of null (reading 'message')'')
      | ThrownUndefined \<Rightarrow>
          reject (TypeError ''Cannot read properties of undefined (reading 'message')'')
      | ThrownOther \<Rightarrow> resolve ''undefined'')"

section \<open>Strings\<close>

text \<open>\<^verbatim>\<open>Array.prototype.join\<close> on an array of strings.\<close>

fun join :: "string \<Rightarrow> string list \<Rightarrow> string" where
  "join sep [] = []"
| "join sep [x] = x"
| "join sep (x # y # ys) = x @ sep @ join sep (y # ys)"

text \<open>An integer inside a template literal: decimal digits with a leading minus sign.\<close>

fun digits :: "nat \<Rightarrow> string" where
  "digits n = (if n < 10 then [char_of (48 + n)] else digits (n div 10) @ [char_of (48 + n mod 10)])"

declare digits.simps [simp del]

definition number_toString :: "int \<Rightarrow> string" where
  "number_toString i = (if i < 0 then ''-'' @ digits (nat (- i)) else digits (nat i))"

section \<open>Response envelope\<close>

text \<open>The members of \<^verbatim>\<open>StatusCodes\<close> (package http-status-codes) that the code uses.\<close>

definition OK :: int where "OK = 200"
definition CREATED :: int where "CREATED = 201"
definition NO_CONTENT :: int where "NO_CONTENT = 204"
definition BAD_REQUEST :: int where "BAD_REQUEST = 400"
definition NOT_FOUND :: int where "NOT_FOUND = 404"
definition CONFLICT :: int where "CONFLICT = 409"
definition INTERNAL_SERVER_ERROR :: int where "INTERNAL_SERVER_ERROR = 500"

text \<open>The envelope; \<open>responseObject = None\<close> is the \<^verbatim>\<open>null\<close> payload.\<close>

record 'a ServiceResponse =
  success :: bool
  message :: string
  responseObject :: "'a option"
  statusCode :: int

text \<open>
  Modelled from the spec: the class \<^verbatim>\<open>ServiceResponse\<close> (common/models/serviceResponse) is
  not among the sources. Section 4.2 of the specification gives its two construction paths:
  \<^verbatim>\<open>success(message, payload, statusCode = 200)\<close> sets the flag to true, and
  \<^verbatim>\<open>failure(message, payload, statusCode)\<close> sets it to false; both store the message, the
  payload and the status code as given. A call site that omits the status code of
  \<^verbatim>\<open>success\<close> is written here with \<open>OK\<close>.
\<close>

definition ServiceResponse_success :: "string \<Rightarrow> 'a option \<Rightarrow> int \<Rightarrow> 'a ServiceResponse" where
  "ServiceResponse_success msg payload code =
     \<lparr>success = True, message = msg, responseObject = payload, statusCode = code\<rparr>"

definition ServiceResponse_failure :: "string \<Rightarrow> 'a option \<Rightarrow> int \<Rightarrow> 'a ServiceResponse" where
  "ServiceResponse_failure msg payload code =
     \<lparr>success = False, message = msg, responseObject = payload, statusCode = code\<rparr>"

section \<open>The repository as the service sees it\<close>

text \<open>
  The service receives its repository through the constructor, and the tests pass mocks,
  so the service is modelled over any object with the five methods. \<open>findAllAsync\<close> may
  resolve to \<^verbatim>\<open>null\<close> (\<open>None\<close>): \<^verbatim>\<open>UserService.findAll\<close> guards against it.
\<close>

record 'w UserRepository =
  findAllAsync :: "(User list option, 'w) promise"
  findByIdAsync :: "int \<Rightarrow> (User option, 'w) promise"
  createAsync :: "UserData \<Rightarrow> (User, 'w) promise"
  updateAsync :: "int \<Rightarrow> PartialUserData \<Rightarrow> (User option, 'w) promise"
  deleteAsync :: "int \<Rightarrow> (bool, 'w) promise"

section \<open>UserService\<close>

text \<open>
  \<^verbatim>\<open>users.some(...)\<close> on the value that \<open>findAllAsync\<close> resolved to: calling a method of
  \<^verbatim>\<open>null\<close> raises a TypeError.
\<close>

definition users_some :: "User list option \<Rightarrow> (User \<Rightarrow> bool) \<Rightarrow> (bool, 'w) promise" where
  "users_some users p =
     (case users of
        None \<Rightarrow> reject (TypeError ''Cannot read properties of null (reading 'some')'')
      | Some us \<Rightarrow> resolve (list_ex p us))"

text \<open>Truthiness of an optional string: \<^verbatim>\<open>undefined\<close> and the empty string are falsy.\<close>

definition truthy :: "string option \<Rightarrow> bool" where
  "truthy s = (case s of None \<Rightarrow> False | Some v \<Rightarrow> v \<noteq> [])"

definition UserService_findAll ::
  "(string \<Rightarrow> 'w \<Rightarrow> 'w) \<Rightarrow> 'w UserRepository \<Rightarrow> (User list ServiceResponse, 'w) promise" where
  "UserService_findAll logger_error userRepository =
     try_catch
       (await (findAllAsync userRepository) (\<lambda>users.
          if users = None \<or> users = Some [] then
            resolve (ServiceResponse_failure ''No Users found'' None NOT_FOUND)
          else resolve (ServiceResponse_success ''Users found'' users OK)))
       (\<lambda>ex.
          await (read_message ex) (\<lambda>msg.
            exec (logger_error (''Error finding all users: '' @ msg))
            (resolve (ServiceResponse_failure ''An error occurred while retrieving users.'' None
               INTERNAL_SERVER_ERROR))))"

definition UserService_findById ::
  "(string \<Rightarrow> 'w \<Rightarrow> 'w) \<Rightarrow> 'w UserRepository \<Rightarrow> int \<Rightarrow> (User ServiceResponse, 'w) promise" where
  "UserService_findById logger_error userRepository uid =
     try_catch
       (await (findByIdAsync userRepository uid) (\<lambda>user.
          if user = None then resolve (ServiceResponse_failure ''User not found'' None NOT_FOUND)
          else resolve (ServiceResponse_success ''User found'' user OK)))
       (\<lambda>ex.
          await (read_message ex) (\<lambda>msg.
            exec (logger_error
                 (''Error finding user with id '' @ number_toString uid @ '': '' @ msg))
            (resolve (ServiceResponse_failure ''An error occurred while finding user.'' None
               INTERNAL_SERVER_ERROR))))"

definition UserService_create ::
  "(string \<Rightarrow> 'w \<Rightarrow> 'w) \<Rightarrow> 'w UserRepository \<Rightarrow> UserData \<Rightarrow> (User ServiceResponse, 'w) promise" where
  "UserService_create logger_error userRepository userData =
     try_catch
       (await (findAllAsync userRepository) (\<lambda>users.
        await (users_some users (\<lambda>user. email user = email userData)) (\<lambda>emailExists.
          if emailExists then
            resolve (ServiceResponse_failure ''Email already in use'' None CONFLICT)
          else
            await (createAsync userRepository userData) (\<lambda>user.
              resolve (ServiceResponse_success ''User created successfully'' (Some user) CREATED)))))
       (\<lambda>ex.
          await (read_message ex) (\<lambda>msg.
            exec (logger_error (''Error creating user: '' @ msg))
            (resolve (ServiceResponse_failure ''An error occurred while creating user.'' None
               INTERNAL_SERVER_ERROR))))"

definition UserService_update ::
  "(string \<Rightarrow> 'w \<Rightarrow> 'w) \<Rightarrow> 'w UserRepository \<Rightarrow> int \<Rightarrow> PartialUserData \<Rightarrow>
     (User ServiceResponse, 'w) promise" where
  "UserService_update logger_error userRepository uid userData =
     try_catch
       (await (findByIdAsync userRepository uid) (\<lambda>existingUser.
          case existingUser of
            None \<Rightarrow> resolve (ServiceResponse_failure ''User not found'' None NOT_FOUND)
          | Some existing \<Rightarrow>
              (let proceed =
                 await (updateAsync userRepository uid userData) (\<lambda>updatedUser.
                   if updatedUser = None then
                     resolve (ServiceResponse_failure ''Failed to update user'' None
                        INTERNAL_SERVER_ERROR)
                   else resolve (ServiceResponse_success ''User updated successfully'' updatedUser OK))
               in
                 if truthy (email_opt userData) \<and> email_opt userData \<noteq> Some (email existing) then
                   await (findAllAsync userRepository) (\<lambda>users.
                   await (users_some users
                            (\<lambda>user. Some (email user) = email_opt userData \<and> id' user \<noteq> uid))
                     (\<lambda>emailExists.
                        if emailExists then
                          resolve (ServiceResponse_failure ''Email already in use'' None CONFLICT)
                        else proceed))
                 else proceed)))
       (\<lambda>ex.
          await (read_message ex) (\<lambda>msg.
            exec (logger_error
                 (''Error updating user with id '' @ number_toString uid @ '': '' @ msg))
            (resolve (ServiceResponse_failure ''An error occurred while updating user.'' None
               INTERNAL_SERVER_ERROR))))"

definition UserService_delete ::
  "(string \<Rightarrow> 'w \<Rightarrow> 'w) \<Rightarrow> 'w UserRepository \<Rightarrow> int \<Rightarrow> (unit ServiceResponse, 'w) promise" where
  "UserService_delete logger_error userRepository uid =
     try_catch
       (await (findByIdAsync userRepository uid) (\<lambda>existingUser.
          if existingUser = None then
            resolve (ServiceResponse_failure ''User not found'' None NOT_FOUND)
          else
            await (deleteAsync userRepository uid) (\<lambda>deleted.
              if \<not> deleted then
                resolve (ServiceResponse_failure ''Failed to delete user'' None INTERNAL_SERVER_ERROR)
              else resolve (ServiceResponse_success ''User deleted successfully'' None NO_CONTENT))))
       (\<lambda>ex.
          await (read_message ex) (\<lambda>msg.
            exec (logger_error
                 (''Error deleting user with id '' @ number_toString uid @ '': '' @ msg))
            (resolve (ServiceResponse_failure ''An error occurred while deleting user.'' None
               INTERNAL_SERVER_ERROR))))"

section \<open>UserRepository\<close>

text \<open>
  The connection pool (package mysql2) is not part of the repository. \<^verbatim>\<open>pool.query\<close> takes
  the statement text and the values bound to its placeholders; it resolves to the rows for
  a \<^verbatim>\<open>SELECT\<close> and to a result header for \<^verbatim>\<open>INSERT\<close>, \<^verbatim>\<open>UPDATE\<close> and \<^verbatim>\<open>DELETE\<close>, which is
  what the casts \<^verbatim>\<open>rows as User[]\<close> and \<^verbatim>\<open>(result as any).insertId\<close> of the source rely on. The
  pool is a parameter with one entry for each of the two result shapes.
\<close>

datatype BindValue = BNumber int | BString string | BUndefined

record ResultSetHeader =
  insertId :: int
  affectedRows :: nat

record 'w Pool =
  query_rows :: "string \<Rightarrow> BindValue list \<Rightarrow> (User list, 'w) promise"
  query_header :: "string \<Rightarrow> BindValue list \<Rightarrow> (ResultSetHeader, 'w) promise"

text \<open>
  \<^verbatim>\<open>{ ...user, createdAt: new Date(user.createdAt), updatedAt: new Date(user.updatedAt) }\<close>
\<close>

definition with_dates :: "User \<Rightarrow> User" where
  "with_dates user =
     user\<lparr>createdAt := new_Date (createdAt user), updatedAt := new_Date (updatedAt user)\<rparr>"

definition bind_age :: "int option \<Rightarrow> BindValue" where
  "bind_age a = (case a of None \<Rightarrow> BUndefined | Some n \<Rightarrow> BNumber n)"

definition UserRepository_findAllAsync ::
  "'w Pool \<Rightarrow> (string \<Rightarrow> 'w \<Rightarrow> 'w) \<Rightarrow> (User list, 'w) promise" where
  "UserRepository_findAllAsync pool logger_error =
     try_catch
       (await (query_rows pool ''SELECT * FROM users'' []) (\<lambda>rows.
          resolve (map with_dates rows)))
       (\<lambda>error.
          await (read_message error) (\<lambda>msg.
            exec (logger_error (''Error finding all users: '' @ msg)) (reject error)))"

definition UserRepository_findByIdAsync ::
  "'w Pool \<Rightarrow> (string \<Rightarrow> 'w \<Rightarrow> 'w) \<Rightarrow> int \<Rightarrow> (User option, 'w) promise" where
  "UserRepository_findByIdAsync pool logger_error uid =
     try_catch
       (await (query_rows pool ''SELECT * FROM users WHERE id = ?'' [BNumber uid]) (\<lambda>users.
          if length users = 0 then resolve None
          else (let user = users ! 0 in resolve (Some (with_dates user)))))
       (\<lambda>error.
          await (read_message error) (\<lambda>msg.
            exec (logger_error (''Error finding user by id: '' @ msg)) (reject error)))"

text \<open>
  \<^verbatim>\<open>users[0]\<close> of an empty array is \<^verbatim>\<open>undefined\<close>, and reading \<^verbatim>\<open>createdUser.createdAt\<close> of
  it raises a TypeError inside the try block.
\<close>

definition UserRepository_createAsync ::
  "'w Pool \<Rightarrow> (string \<Rightarrow> 'w \<Rightarrow> 'w) \<Rightarrow> UserData \<Rightarrow> (User, 'w) promise" where
  "UserRepository_createAsync pool logger_error user =
     try_catch
       (await (query_header pool ''INSERT INTO users (name, email, age) VALUES (?, ?, ?)''
                 [BString (name user), BString (email user), bind_age (age user)]) (\<lambda>result.
          (let ident = insertId result in
           await (query_rows pool ''SELECT * FROM users WHERE id = ?'' [BNumber ident]) (\<lambda>users.
             case users of
               [] \<Rightarrow> reject (TypeError ''Cannot read properties of undefined (reading 'createdAt')'')
             | createdUser # _ \<Rightarrow> resolve (with_dates createdUser)))))
       (\<lambda>error.
          await (read_message error) (\<lambda>msg.
            exec (logger_error (''Error creating user: '' @ msg)) (reject error)))"

text \<open>
  The two arrays that \<^verbatim>\<open>updateAsync\<close> fills, one \<^verbatim>\<open>if\<close> after the other. Both calls of
  \<^verbatim>\<open>this.findByIdAsync\<close> are returned without \<^verbatim>\<open>await\<close>.
\<close>

definition push_field ::
  "string \<Rightarrow> BindValue option \<Rightarrow> string list \<times> BindValue list \<Rightarrow> string list \<times> BindValue list" where
  "push_field clause v acc =
     (case v of None \<Rightarrow> acc | Some x \<Rightarrow> (fst acc @ [clause], snd acc @ [x]))"

definition UserRepository_updateAsync ::
  "'w Pool \<Rightarrow> (string \<Rightarrow> 'w \<Rightarrow> 'w) \<Rightarrow> int \<Rightarrow> PartialUserData \<Rightarrow> (User option, 'w) promise" where
  "UserRepository_updateAsync pool logger_error uid user =
     async_return
       (try_catch
          (let acc = ([], []);
               acc = push_field ''name = ?'' (map_option BString (name_opt user)) acc;
               acc = push_field ''email = ?'' (map_option BString (email_opt user)) acc;
               acc = push_field ''age = ?'' (map_option BNumber (age_opt user)) acc;
               updateFields = fst acc;
               values = snd acc
           in
             if length updateFields = 0 then
               resolve (UserRepository_findByIdAsync pool logger_error uid)
             else
               (let values = values @ [BNumber uid] in
                await (query_header pool
                         (''UPDATE users SET '' @ join '', '' updateFields @ '' WHERE id = ?'') values)
                  (\<lambda>result.
                     if affectedRows result = 0 then resolve (resolve None)
                     else resolve (UserRepository_findByIdAsync pool logger_error uid))))
          (\<lambda>error.
             await (read_message error) (\<lambda>msg.
               exec (logger_error (''Error updating user: '' @ msg)) (reject error))))"

definition UserRepository_deleteAsync ::
  "'w Pool \<Rightarrow> (string \<Rightarrow> 'w \<Rightarrow> 'w) \<Rightarrow> int \<Rightarrow> (bool, 'w) promise" where
  "UserRepository_deleteAsync pool logger_error uid =
     try_catch
       (await (query_header pool ''DELETE FROM users WHERE id = ?'' [BNumber uid]) (\<lambda>result.
          resolve (affectedRows result > 0)))
       (\<lambda>error.
          await (read_message error) (\<lambda>msg.
            exec (logger_error (''Error deleting user: '' @ msg)) (reject error)))"

text \<open>\<^verbatim>\<open>new UserRepository()\<close>: the object handed to the service.\<close>

definition UserRepository_new :: "'w Pool \<Rightarrow> (string \<Rightarrow> 'w \<Rightarrow> 'w) \<Rightarrow> 'w UserRepository" where
  "UserRepository_new pool logger_error =
     \<lparr>findAllAsync =
        await (UserRepository_findAllAsync pool logger_error) (\<lambda>users. resolve (Some users)),
      findByIdAsync = UserRepository_findByIdAsync pool logger_error,
      createAsync = UserRepository_createAsync pool logger_error,
      updateAsync = UserRepository_updateAsync pool logger_error,
      deleteAsync = UserRepository_deleteAsync pool logger_error\<rparr>"

section \<open>Transport adapter and validation middleware\<close>

text \<open>
  The part of the Express response that the handlers write: \<^verbatim>\<open>res.status(code)\<close> and
  \<^verbatim>\<open>res.send(body)\<close>.
\<close>

record 'a Response =
  response_status :: int
  response_body :: "'a ServiceResponse option"

definition Response_status :: "int \<Rightarrow> 'a Response \<Rightarrow> 'a Response" where
  "Response_status code res = res\<lparr>response_status := code\<rparr>"

definition Response_send :: "'a ServiceResponse \<Rightarrow> 'a Response \<Rightarrow> 'a Response" where
  "Response_send b res = res\<lparr>response_body := Some b\<rparr>"

text \<open>The argument \<open>None\<close> is \<^verbatim>\<open>undefined\<close>.\<close>

definition handleServiceResponse :: "'a ServiceResponse option \<Rightarrow> 'a Response \<Rightarrow> 'a Response" where
  "handleServiceResponse serviceResponse response =
     (case serviceResponse of
        None \<Rightarrow>
          Response_send
            \<lparr>success = False,
             message = ''An unexpected error occurred: Service response is undefined'',
             responseObject = None,
             statusCode = INTERNAL_SERVER_ERROR\<rparr>
            (Response_status INTERNAL_SERVER_ERROR response)
      | Some sr \<Rightarrow> Response_send sr (Response_status (statusCode sr) response))"

text \<open>
  A request as the middleware reads it: body, query and params, each a JSON value. The
  package zod is not part of the repository; a schema is what \<^verbatim>\<open>schema.parse\<close> does with its
  input: it returns the parsed value or throws a \<^verbatim>\<open>ZodError\<close> that carries the issues.
\<close>

datatype json =
  JNull | JBool bool | JNumber rat | JString string | JArray "json list"
| JObject "(string \<times> json) list"

record Request =
  body :: json
  query :: json
  params :: json

datatype ZodIssue = ZodIssue (issue_message: string)

datatype ZodError = ZodError (errors: "ZodIssue list")

type_synonym ZodSchema = "json \<Rightarrow> ZodError + json"

text \<open>
  \<^verbatim>\<open>next\<close> is the rest of the route (the controller); it receives the request and the
  response objects the middleware was called with. The result of \<^verbatim>\<open>schema.parse\<close> is
  dropped.
\<close>

definition validateRequest ::
  "ZodSchema \<Rightarrow> Request \<Rightarrow> 'a Response \<Rightarrow> (Request \<Rightarrow> 'a Response \<Rightarrow> 'w \<Rightarrow> 'a Response \<times> 'w) \<Rightarrow>
     'w \<Rightarrow> 'a Response \<times> 'w" where
  "validateRequest schema req res next w =
     (case schema (JObject [(''body'', body req), (''query'', query req), (''params'', params req)]) of
        Inr _ \<Rightarrow> next req res w
      | Inl err \<Rightarrow>
          (let errorMessage = ''Invalid input: '' @ join '', '' (map issue_message (errors err));
               statusCode = BAD_REQUEST;
               serviceResponse = ServiceResponse_failure errorMessage None statusCode
           in (handleServiceResponse (Some serviceResponse) res, w)))"

section \<open>The schema of the update endpoint\<close>

text \<open>
  The fragment of zod (version 3) that \<^verbatim>\<open>UpdateUserSchema\<close> is built from. A schema parses
  an input that may be absent (\<open>None\<close> is \<^verbatim>\<open>undefined\<close>) into a status, the issues it
  raised and an output value. A failed type test aborts; a failed check or refinement
  leaves the value dirty; a refinement runs unless the inner schema aborted.
\<close>

datatype ParseStatus = Valid | Dirty | Aborted

type_synonym ParseReturn = "ParseStatus \<times> ZodIssue list \<times> json option"

type_synonym ZodType = "json option \<Rightarrow> ParseReturn"

fun getParsedType :: "json option \<Rightarrow> string" where
  "getParsedType None = ''undefined''"
| "getParsedType (Some JNull) = ''null''"
| "getParsedType (Some (JBool _)) = ''boolean''"
| "getParsedType (Some (JNumber _)) = ''number''"
| "getParsedType (Some (JString _)) = ''string''"
| "getParsedType (Some (JArray _)) = ''array''"
| "getParsedType (Some (JObject _)) = ''object''"

definition invalid_type :: "string \<Rightarrow> json option \<Rightarrow> ParseReturn" where
  "invalid_type expected input =
     (Aborted,
      [ZodIssue (if input = None then ''Required''
                 else ''Expected '' @ expected @ '', received '' @ getParsedType input)],
      None)"

definition run_checks :: "('a \<Rightarrow> string option) list \<Rightarrow> 'a \<Rightarrow> json \<Rightarrow> ParseReturn" where
  "run_checks checks x v =
     (let issues = map ZodIssue (List.map_filter (\<lambda>c. c x) checks)
      in (if issues = [] then Valid else Dirty, issues, Some v))"

definition z_string :: "(string \<Rightarrow> string option) list \<Rightarrow> ZodType" where
  "z_string checks input =
     (case input of Some (JString s) \<Rightarrow> run_checks checks s (JString s)
      | _ \<Rightarrow> invalid_type ''string'' input)"

definition z_number :: "(rat \<Rightarrow> string option) list \<Rightarrow> ZodType" where
  "z_number checks input =
     (case input of Some (JNumber n) \<Rightarrow> run_checks checks n (JNumber n)
      | _ \<Rightarrow> invalid_type ''number'' input)"

definition string_min :: "nat \<Rightarrow> string \<Rightarrow> string \<Rightarrow> string option" where
  "string_min n msg s = (if length s < n then Some msg else None)"

definition string_email :: "(string \<Rightarrow> bool) \<Rightarrow> string \<Rightarrow> string \<Rightarrow> string option" where
  "string_email is_email msg s = (if is_email s then None else Some msg)"

definition number_int :: "rat \<Rightarrow> string option" where
  "number_int n = (if n = of_int \<lfloor>n\<rfloor> then None else Some ''Expected integer, received float'')"

definition number_min :: "rat \<Rightarrow> string \<Rightarrow> rat \<Rightarrow> string option" where
  "number_min m msg n = (if n < m then Some msg else None)"

definition optional :: "ZodType \<Rightarrow> ZodType" where
  "optional schema input = (if input = None then (Valid, [], None) else schema input)"

definition merge_status :: "ParseStatus \<Rightarrow> ParseStatus \<Rightarrow> ParseStatus" where
  "merge_status a b =
     (if a = Aborted \<or> b = Aborted then Aborted
      else if a = Dirty \<or> b = Dirty then Dirty else Valid)"

text \<open>
  \<^verbatim>\<open>z.object(shape)\<close>: every key of the shape is parsed, in the order of the shape, keys
  outside the shape are stripped, and a key is part of the output when its value is
  defined.
\<close>

fun parse_shape :: "(string \<times> ZodType) list \<Rightarrow> (string \<times> json) list \<Rightarrow>
    ParseStatus \<times> ZodIssue list \<times> (string \<times> json) list" where
  "parse_shape [] input = (Valid, [], [])"
| "parse_shape ((key, schema) # shape) input =
     (case schema (map_of input key) of (st, issues, v) \<Rightarrow>
        (case parse_shape shape input of (st', issues', out) \<Rightarrow>
           (merge_status st st', issues @ issues',
            (case v of None \<Rightarrow> out | Some x \<Rightarrow> (key, x) # out))))"

definition z_object :: "(string \<times> ZodType) list \<Rightarrow> ZodType" where
  "z_object shape input =
     (case input of
        Some (JObject kvs) \<Rightarrow>
          (case parse_shape shape kvs of (st, issues, out) \<Rightarrow>
             (st, issues, if st = Aborted then None else Some (JObject out)))
      | _ \<Rightarrow> invalid_type ''object'' input)"

definition refine :: "ZodType \<Rightarrow> (json \<Rightarrow> bool) \<Rightarrow> string \<Rightarrow> ZodType" where
  "refine schema check msg input =
     (case schema input of (st, issues, v) \<Rightarrow>
        (case v of
           Some x \<Rightarrow>
             (if st = Aborted \<or> check x then (st, issues, v)
              else (Dirty, issues @ [ZodIssue msg], v))
         | None \<Rightarrow> (st, issues, v)))"

fun Object_keys :: "json \<Rightarrow> string list" where
  "Object_keys (JObject kvs) = map fst kvs"
| "Object_keys _ = []"

text \<open>\<^verbatim>\<open>schema.parse(input)\<close>: the output of a valid parse, a \<^verbatim>\<open>ZodError\<close> otherwise.\<close>

definition parse :: "ZodType \<Rightarrow> ZodSchema" where
  "parse schema input =
     (case schema (Some input) of (st, issues, v) \<Rightarrow>
        (if st = Valid then Inr (case v of Some x \<Rightarrow> x | None \<Rightarrow> JNull)
         else Inl (ZodError issues)))"

text \<open>
  \<^verbatim>\<open>UpdateUserSchema\<close>. The schema \<^verbatim>\<open>commonValidations.id\<close> (common/utils/commonValidation)
  is not among the sources and is a parameter, as is the test that zod applies to an
  email address.
\<close>

definition UpdateUserSchema :: "ZodType \<Rightarrow> (string \<Rightarrow> bool) \<Rightarrow> ZodType" where
  "UpdateUserSchema commonValidations_id is_email =
     z_object
       [(''params'', z_object [(''id'', commonValidations_id)]),
        (''body'',
         refine
           (z_object
              [(''name'', optional (z_string [string_min 2 ''Name must be at least 2 characters''])),
               (''email'', optional (z_string [string_email is_email ''Invalid email format''])),
               (''age'',
                optional (z_number [number_int, number_min 0 ''Age must be a positive number'']))])
           (\<lambda>data. length (Object_keys data) > 0)
           ''At least one field must be provided for update'')]"

section \<open>A sequential reference model of the database and the logger\<close>

text \<open>
  The table \<^verbatim>\<open>users\<close> that \<^verbatim>\<open>initializeDatabase\<close> creates: \<^verbatim>\<open>id\<close> is the auto-incremented
  primary key, \<^verbatim>\<open>email\<close> is unique, \<^verbatim>\<open>createdAt\<close> and \<^verbatim>\<open>updatedAt\<close> default to the time of
  insertion and \<^verbatim>\<open>updatedAt\<close> is refreshed when an update changes the row. The model answers
  the five statements the repository issues, one request at a time, and never loses its
  connection. The driver counts the rows that a statement matched in \<^verbatim>\<open>affectedRows\<close>. The
  unique index compares email addresses exactly; under a collation that ignores case it
  would reject more insertions and updates than the model does. The theorems that speak of
  the reference store are about this model; those over any pool or any repository are not.
\<close>

record Database =
  users :: "User list"
  AUTO_INCREMENT :: int
  CURRENT_TIMESTAMP :: int

record World =
  database :: Database
  logged :: "string list"

definition logger_error :: "string \<Rightarrow> World \<Rightarrow> World" where
  "logger_error msg w = w\<lparr>logged := logged w @ [msg]\<rparr>"

definition select_rows :: "string \<Rightarrow> BindValue list \<Rightarrow> Database \<Rightarrow> Thrown + User list" where
  "select_rows sql values db =
     (if sql = ''SELECT * FROM users'' then Inr (users db)
      else if sql = ''SELECT * FROM users WHERE id = ?'' then
        (case values of
           [BNumber i] \<Rightarrow> Inr (filter (\<lambda>r. id' r = i) (users db))
         | _ \<Rightarrow> Inr [])
      else Inl (Error ''ER_PARSE_ERROR''))"

fun assign :: "string \<Rightarrow> BindValue \<Rightarrow> User \<Rightarrow> User" where
  "assign clause (BString s) r =
     (if clause = ''name = ?'' then r\<lparr>name := s\<rparr>
      else if clause = ''email = ?'' then r\<lparr>email := s\<rparr> else r)"
| "assign clause (BNumber n) r = (if clause = ''age = ?'' then r\<lparr>age := Some n\<rparr> else r)"
| "assign clause BUndefined r = (if clause = ''age = ?'' then r\<lparr>age := None\<rparr> else r)"

fun assign_all :: "string list \<Rightarrow> BindValue list \<Rightarrow> User \<Rightarrow> User" where
  "assign_all (c # cs) (v # vs) r = assign_all cs vs (assign c v r)"
| "assign_all _ _ r = r"

definition set_clauses :: "string \<Rightarrow> string list option" where
  "set_clauses sql =
     find (\<lambda>cs. sql = ''UPDATE users SET '' @ join '', '' cs @ '' WHERE id = ?'')
       (filter (\<lambda>cs. cs \<noteq> []) (subseqs [''name = ?'', ''email = ?'', ''age = ?'']))"

definition touch :: "int \<Rightarrow> User \<Rightarrow> User \<Rightarrow> User" where
  "touch now old new = (if new = old then old else new\<lparr>updatedAt := Raw now\<rparr>)"

definition execute :: "string \<Rightarrow> BindValue list \<Rightarrow> Database \<Rightarrow> (Thrown + ResultSetHeader) \<times> Database" where
  "execute sql values db =
     (if sql = ''INSERT INTO users (name, email, age) VALUES (?, ?, ?)'' then
        (case values of
           [BString n, BString e, a] \<Rightarrow>
             (if e \<in> set (map email (users db)) then (Inl (Error ''ER_DUP_ENTRY''), db)
              else
                (Inr \<lparr>insertId = AUTO_INCREMENT db, affectedRows = 1\<rparr>,
                 db\<lparr>users := users db @
                      [\<lparr>name = n, email = e,
                        age = (case a of BNumber k \<Rightarrow> Some k | _ \<Rightarrow> None),
                        id' = AUTO_INCREMENT db,
                        createdAt = Raw (CURRENT_TIMESTAMP db),
                        updatedAt = Raw (CURRENT_TIMESTAMP db)\<rparr>],
                    AUTO_INCREMENT := AUTO_INCREMENT db + 1\<rparr>))
         | _ \<Rightarrow> (Inl (Error ''ER_BAD_NULL_ERROR''), db))
      else if sql = ''DELETE FROM users WHERE id = ?'' then
        (case values of
           [BNumber i] \<Rightarrow>
             (Inr \<lparr>insertId = 0, affectedRows = length (filter (\<lambda>r. id' r = i) (users db))\<rparr>,
              db\<lparr>users := filter (\<lambda>r. id' r \<noteq> i) (users db)\<rparr>)
         | _ \<Rightarrow> (Inr \<lparr>insertId = 0, affectedRows = 0\<rparr>, db))
      else
        (case set_clauses sql of
           None \<Rightarrow> (Inl (Error ''ER_PARSE_ERROR''), db)
         | Some cs \<Rightarrow>
             (if length values \<noteq> length cs + 1 then (Inl (Error ''ER_PARSE_ERROR''), db)
              else
                (case last values of
                   BNumber i \<Rightarrow>
                     (let rows =
                        map (\<lambda>r. if id' r = i
                                  then touch (CURRENT_TIMESTAMP db) r (assign_all cs values r) else r)
                          (users db)
                      in
                        if distinct (map email (users db)) \<and> \<not> distinct (map email rows) then
                          (Inl (Error ''ER_DUP_ENTRY''), db)
                        else
                          (Inr \<lparr>insertId = 0,
                                affectedRows = length (filter (\<lambda>r. id' r = i) (users db))\<rparr>,
                           db\<lparr>users := rows\<rparr>))
                 | _ \<Rightarrow> (Inr \<lparr>insertId = 0, affectedRows = 0\<rparr>, db)))))"

definition pool :: "World Pool" where
  "pool =
     \<lparr>query_rows = (\<lambda>sql values w. (select_rows sql values (database w), w)),
      query_header =
        (\<lambda>sql values w.
           (case execute sql values (database w) of (r, db) \<Rightarrow> (r, w\<lparr>database := db\<rparr>)))\<rparr>"

text \<open>The module-level instance: \<^verbatim>\<open>new UserService()\<close> with \<^verbatim>\<open>new UserRepository()\<close>.\<close>

definition userRepository :: "World UserRepository" where
  "userRepository = UserRepository_new pool logger_error"

section \<open>Repositories that reject with values other than null and undefined\<close>

text \<open>
  The condition under which the catch clauses of the service can read the message of what
  they caught: whatever a method of the repository rejects with, in any world and for any
  arguments, is neither \<^verbatim>\<open>null\<close> nor \<^verbatim>\<open>undefined\<close>.
\<close>

definition rejects_values :: "'w UserRepository \<Rightarrow> bool" where
  "rejects_values r =
     (\<forall>w ex w'.
        (findAllAsync r w = (Inl ex, w') \<longrightarrow> \<not> nullish ex) \<and>
        (\<forall>i. findByIdAsync r i w = (Inl ex, w') \<longrightarrow> \<not> nullish ex) \<and>
        (\<forall>d. createAsync r d w = (Inl ex, w') \<longrightarrow> \<not> nullish ex) \<and>
        (\<forall>i d. updateAsync r i d w = (Inl ex, w') \<longrightarrow> \<not> nullish ex) \<and>
        (\<forall>i. deleteAsync r i w = (Inl ex, w') \<longrightarrow> \<not> nullish ex))"

section \<open>Recording the calls of a repository\<close>

text \<open>
  To state that a method of the repository is or is not invoked, any repository is wrapped
  so that each call appends its name and arguments to a list kept beside the world.
\<close>

datatype Call =
  FindAll | FindById int | Create UserData | Update int PartialUserData | Delete int

definition recording :: "Call \<Rightarrow> ('a, 'w) promise \<Rightarrow> ('a, 'w \<times> Call list) promise" where
  "recording c p = (\<lambda>(w, calls). case p w of (r, w') \<Rightarrow> (r, (w', calls @ [c])))"

definition recorded :: "'w UserRepository \<Rightarrow> ('w \<times> Call list) UserRepository" where
  "recorded r =
     \<lparr>findAllAsync = recording FindAll (findAllAsync r),
      findByIdAsync = (\<lambda>i. recording (FindById i) (findByIdAsync r i)),
      createAsync = (\<lambda>d. recording (Create d) (createAsync r d)),
      updateAsync = (\<lambda>i d. recording (Update i d) (updateAsync r i d)),
      deleteAsync = (\<lambda>i. recording (Delete i) (deleteAsync r i))\<rparr>"

text \<open>The logger beside a recording repository writes to the world and leaves the list alone.\<close>

definition on_world :: "(string \<Rightarrow> 'w \<Rightarrow> 'w) \<Rightarrow> string \<Rightarrow> 'w \<times> Call list \<Rightarrow> 'w \<times> Call list" where
  "on_world lg msg = (\<lambda>(w, calls). (lg msg w, calls))"

section \<open>The update statement as the specification describes it\<close>

text \<open>
  The specification says that \<^verbatim>\<open>update(id, partialFields)\<close> builds an update touching only the
  fields actually supplied. In its words: the supplied fields are those of name, email and
  age that are defined, each with its value, and the statement sets exactly their columns.
  These two definitions are what the code of \<^verbatim>\<open>updateAsync\<close> is compared with.
\<close>

definition supplied_fields :: "PartialUserData \<Rightarrow> (string \<times> BindValue) list" where
  "supplied_fields user =
     (case name_opt user of None \<Rightarrow> [] | Some n \<Rightarrow> [(''name'', BString n)]) @
     (case email_opt user of None \<Rightarrow> [] | Some e \<Rightarrow> [(''email'', BString e)]) @
     (case age_opt user of None \<Rightarrow> [] | Some a \<Rightarrow> [(''age'', BNumber a)])"

definition update_statement :: "(string \<times> BindValue) list \<Rightarrow> string" where
  "update_statement supplied =
     ''UPDATE users SET '' @ join '', '' (map (\<lambda>(column, v). column @ '' = ?'') supplied) @
     '' WHERE id = ?''"

text \<open>A row in which the supplied fields have their new values and the others are as before.\<close>

definition patched :: "PartialUserData \<Rightarrow> User \<Rightarrow> User" where
  "patched user r =
     r\<lparr>name := (case name_opt user of None \<Rightarrow> name r | Some n \<Rightarrow> n),
       email := (case email_opt user of None \<Rightarrow> email r | Some e \<Rightarrow> e),
       age := (case age_opt user of None \<Rightarrow> age r | Some a \<Rightarrow> Some a)\<rparr>"

section \<open>Fixtures\<close>

text \<open>
  The two users of the service tests (\<^verbatim>\<open>mockUsers\<close>), a store that holds them, and a
  repository whose every method rejects, as \<^verbatim>\<open>mockRejectedValue(new Error("Database error"))\<close>
  does.
\<close>

definition mockUsers :: "User list" where
  "mockUsers =
     [\<lparr>name = ''Alice'', email = ''alice@example.com'', age = Some 42,
       id' = 1, createdAt = Date 0, updatedAt = Date 0\<rparr>,
      \<lparr>name = ''Bob'', email = ''bob@example.com'', age = Some 21,
       id' = 2, createdAt = Date 0, updatedAt = Date 0\<rparr>]"

definition mockWorld :: World where
  "mockWorld =
     \<lparr>database = \<lparr>users = mockUsers, AUTO_INCREMENT = 3, CURRENT_TIMESTAMP = 1\<rparr>, logged = []\<rparr>"




text \<open>
  A store in which the second user has the empty string as email address, and two requests
  to \<^verbatim>\<open>PUT /users/1\<close>: one with an empty body and one that changes the name.
\<close>

definition blankEmailWorld :: World where
  "blankEmailWorld =
     \<lparr>database =
        \<lparr>users =
           [\<lparr>name = ''Alice'', email = ''alice@example.com'', age = Some 42,
             id' = 1, createdAt = Date 0, updatedAt = Date 0\<rparr>,
            \<lparr>name = ''Bob'', email = [], age = Some 21,
             id' = 2, createdAt = Date 0, updatedAt = Date 0\<rparr>],
         AUTO_INCREMENT = 3, CURRENT_TIMESTAMP = 1\<rparr>,
      logged = []\<rparr>"

definition emptyUpdateRequest :: Request where
  "emptyUpdateRequest =
     \<lparr>body = JObject [], query = JObject [], params = JObject [(''id'', JString ''1'')]\<rparr>"

definition nameUpdateRequest :: Request where
  "nameUpdateRequest =
     \<lparr>body = JObject [(''name'', JString ''Updated Name'')], query = JObject [],
      params = JObject [(''id'', JString ''1'')]\<rparr>"

text \<open>
  The reference repository with a deletion that reports no affected row, as
  \<^verbatim>\<open>deleteAsync.mockResolvedValue(false)\<close> does in the service tests.
\<close>

definition deleting_nothing :: "World UserRepository" where
  "deleting_nothing = userRepository\<lparr>deleteAsync := (\<lambda>i. resolve False)\<rparr>"

text \<open>
  The reference pool with a read side that returns no rows, as when the row just inserted
  is gone before the re-read; the updated world of the scenario in which user 1 gets the
  age 40; and the new user of the service tests with the world after its insertion.
\<close>

definition pool_reading_nothing :: "World Pool" where
  "pool_reading_nothing = pool\<lparr>query_rows := (\<lambda>sql values. resolve [])\<rparr>"

definition aliceAged40 :: User where
  "aliceAged40 =
     \<lparr>name = ''Alice'', email = ''alice@example.com'', age = Some 40,
      id' = 1, createdAt = Date 0, updatedAt = Raw 1\<rparr>"

definition mockWorldAged40 :: World where
  "mockWorldAged40 =
     mockWorld\<lparr>database := (database mockWorld)\<lparr>users := [aliceAged40, mockUsers ! 1]\<rparr>\<rparr>"

definition charlie :: UserData where
  "charlie = \<lparr>name = ''Charlie'', email = ''charlie@example.com'', age = Some 30\<rparr>"

definition charlieRow :: User where
  "charlieRow =
     \<lparr>name = ''Charlie'', email = ''charlie@example.com'', age = Some 30,
      id' = 3, createdAt = Raw 1, updatedAt = Raw 1\<rparr>"

definition charlieInserted :: World where
  "charlieInserted =
     mockWorld\<lparr>database := (database mockWorld)
       \<lparr>users := mockUsers @ [charlieRow], AUTO_INCREMENT := 4\<rparr>\<rparr>"



section \<open>Basic facts\<close>

lemmas promise_defs =
  resolve_def reject_def await_def try_catch_def exec_def async_return_def read_message_def

lemmas StatusCodes =
  OK_def CREATED_def NO_CONTENT_def BAD_REQUEST_def NOT_FOUND_def CONFLICT_def
  INTERNAL_SERVER_ERROR_def

lemmas envelope_defs = ServiceResponse_failure_def ServiceResponse_success_def StatusCodes

lemma recorded_sel:
  "findAllAsync (recorded r) (w, calls) = (case findAllAsync r w of (x, w') \<Rightarrow> (x, (w', calls @ [FindAll])))"
  "findByIdAsync (recorded r) i (w, calls) = (case findByIdAsync r i w of (x, w') \<Rightarrow> (x, (w', calls @ [FindById i])))"
  "createAsync (recorded r) d (w, calls) = (case createAsync r d w of (x, w') \<Rightarrow> (x, (w', calls @ [Create d])))"
  "updateAsync (recorded r) i p (w, calls) = (case updateAsync r i p w of (x, w') \<Rightarrow> (x, (w', calls @ [Update i p])))"
  "deleteAsync (recorded r) i (w, calls) = (case deleteAsync r i w of (x, w') \<Rightarrow> (x, (w', calls @ [Delete i])))"
  by (simp_all add: recorded_def recording_def)

lemma email_with_dates [simp]: "email (with_dates r) = email r"
  by (simp add: with_dates_def)

lemma id_with_dates [simp]: "id' (with_dates r) = id' r"
  by (simp add: with_dates_def)

lemma with_dates_fields [simp]:
  "name (with_dates r) = name r" "age (with_dates r) = age r"
  by (simp_all add: with_dates_def)

lemma touch_fields [simp]:
  "name (touch now r x) = name x" "email (touch now r x) = email x"
  "age (touch now r x) = age x" "id' (touch now r x) = id' x"
  "createdAt (touch now r x) = createdAt x"
  by (simp_all add: touch_def)

lemma patched_fields [simp]:
  "id' (patched p r) = id' r" "createdAt (patched p r) = createdAt r"
  by (simp_all add: patched_def)

lemma never_nullish:
  assumes "rejects_values r"
  shows "findAllAsync r w \<noteq> (Inl ThrownNull, w')" "findAllAsync r w \<noteq> (Inl ThrownUndefined, w')"
    "findByIdAsync r i w \<noteq> (Inl ThrownNull, w')" "findByIdAsync r i w \<noteq> (Inl ThrownUndefined, w')"
    "createAsync r d w \<noteq> (Inl ThrownNull, w')" "createAsync r d w \<noteq> (Inl ThrownUndefined, w')"
    "updateAsync r i p w \<noteq> (Inl ThrownNull, w')" "updateAsync r i p w \<noteq> (Inl ThrownUndefined, w')"
    "deleteAsync r i w \<noteq> (Inl ThrownNull, w')" "deleteAsync r i w \<noteq> (Inl ThrownUndefined, w')"
  using assms unfolding rejects_values_def nullish_def by blast+

lemma handler_resolves:
  assumes "\<not> nullish ex"
  shows "\<exists>w'. await (read_message ex) (\<lambda>msg. exec (F msg) (resolve x)) w = (Inr x, w')"
  using assms by (cases ex) (simp_all add: promise_defs nullish_def)

lemma handler_envelope:
  assumes "await (read_message ex) (\<lambda>msg. exec (F msg) (resolve x)) w = (Inr resp, w')"
  shows "resp = x"
  using assms by (cases ex) (simp_all add: promise_defs)

lemma handler_rethrows:
  assumes "await (read_message ex) (\<lambda>msg. exec (F msg) (reject ex)) w = (a, w')"
  shows "\<exists>e. a = Inl e \<and> \<not> nullish e"
  using assms by (cases ex) (auto simp: promise_defs nullish_def)

lemma try_catch_resolves:
  assumes "\<And>e w1. blk w = (Inl e, w1) \<Longrightarrow> \<not> nullish e"
  shows "\<exists>resp w'. try_catch blk (\<lambda>ex. await (read_message ex) (\<lambda>msg. exec (F msg) (resolve x))) w
            = (Inr resp, w')"
proof (cases "blk w")
  case (Pair a w1)
  show ?thesis
  proof (cases a)
    case (Inl e)
    with Pair assms have "\<not> nullish e" by simp
    from handler_resolves [OF this, of F x w1] Pair Inl show ?thesis
      by (auto simp: try_catch_def)
  next
    case (Inr y)
    with Pair show ?thesis by (simp add: try_catch_def)
  qed
qed

lemma try_catch_envelope:
  assumes "try_catch blk (\<lambda>ex. await (read_message ex) (\<lambda>msg. exec (F msg) (resolve x))) w
            = (Inr resp, w')"
  shows "resp = x \<or> (\<exists>w1. blk w = (Inr resp, w'))"
proof (cases "blk w")
  case (Pair a w1)
  show ?thesis
  proof (cases a)
    case (Inl e)
    with Pair assms show ?thesis
      by (auto simp: try_catch_def dest: handler_envelope)
  next
    case (Inr y)
    with Pair assms show ?thesis by (simp add: try_catch_def)
  qed
qed

lemma try_catch_rethrows:
  assumes "try_catch blk (\<lambda>error. await (read_message error) (\<lambda>msg. exec (F msg) (reject error))) w
            = (Inl ex, w')"
  shows "\<not> nullish ex"
proof (cases "blk w")
  case (Pair a w1)
  show ?thesis
  proof (cases a)
    case (Inl e)
    with Pair assms show ?thesis
      by (auto simp: try_catch_def dest: handler_rethrows)
  next
    case (Inr y)
    with Pair assms show ?thesis by (simp add: try_catch_def)
  qed
qed

lemmas flow_defs = resolve_def reject_def await_def

lemma service_resolves:
  assumes "rejects_values r"
  shows "\<exists>resp w'. UserService_findAll lg r w = (Inr resp, w')"
    "\<exists>resp w'. UserService_findById lg r i w = (Inr resp, w')"
    "\<exists>resp w'. UserService_create lg r d w = (Inr resp, w')"
    "\<exists>resp w'. UserService_update lg r i p w = (Inr resp, w')"
    "\<exists>resp w'. UserService_delete lg r i w = (Inr resp, w')"
  unfolding UserService_findAll_def UserService_findById_def UserService_create_def
    UserService_update_def UserService_delete_def
  by (rule try_catch_resolves;
      auto simp: flow_defs users_some_def Let_def nullish_def never_nullish [OF assms]
        split: prod.splits sum.splits option.splits if_splits)+

lemma repository_method_rejects_values:
  "UserRepository_findAllAsync pl lg w = (Inl ex, w') \<Longrightarrow> \<not> nullish ex"
  "UserRepository_findByIdAsync pl lg i w = (Inl ex, w') \<Longrightarrow> \<not> nullish ex"
  "UserRepository_createAsync pl lg d w = (Inl ex, w') \<Longrightarrow> \<not> nullish ex"
  "UserRepository_deleteAsync pl lg i w = (Inl ex, w') \<Longrightarrow> \<not> nullish ex"
  unfolding UserRepository_findAllAsync_def UserRepository_findByIdAsync_def
    UserRepository_createAsync_def UserRepository_deleteAsync_def
  by (erule try_catch_rethrows)+

section \<open>The reference repository\<close>

lemma reference_findAllAsync:
  "findAllAsync userRepository w = (Inr (Some (map with_dates (users (database w)))), w)"
  by (simp add: userRepository_def UserRepository_new_def UserRepository_findAllAsync_def
        promise_defs pool_def select_rows_def)

lemma reference_findByIdAsync:
  "findByIdAsync userRepository i w =
     (Inr (case filter (\<lambda>r. id' r = i) (users (database w)) of
             [] \<Rightarrow> None | r # _ \<Rightarrow> Some (with_dates r)), w)"
  by (simp add: userRepository_def UserRepository_new_def UserRepository_findByIdAsync_def
        promise_defs pool_def select_rows_def split: list.splits)

lemma reference_deleteAsync:
  "deleteAsync userRepository i w =
     (Inr (filter (\<lambda>r. id' r = i) (users (database w)) \<noteq> []),
      w\<lparr>database := (database w)\<lparr>users := filter (\<lambda>r. id' r \<noteq> i) (users (database w))\<rparr>\<rparr>)"
  by (simp add: userRepository_def UserRepository_new_def UserRepository_deleteAsync_def
        promise_defs pool_def execute_def)

lemma reference_createAsync:
  assumes "email d \<notin> set (map email (users (database w)))"
  shows "\<exists>u w'. createAsync userRepository d w = (Inr u, w')"
  using assms
  by (simp add: userRepository_def UserRepository_new_def UserRepository_createAsync_def
        promise_defs pool_def execute_def select_rows_def split: list.splits)

lemma reference_delete:
  "UserService_delete logger_error userRepository i w =
     (if filter (\<lambda>r. id' r = i) (users (database w)) = [] then
        (Inr \<lparr>success = False, message = ''User not found'', responseObject = None,
              statusCode = 404\<rparr>, w)
      else
        (Inr \<lparr>success = True, message = ''User deleted successfully'', responseObject = None,
              statusCode = 204\<rparr>,
         w\<lparr>database := (database w)\<lparr>users := filter (\<lambda>r. id' r \<noteq> i) (users (database w))\<rparr>\<rparr>))"
  by (simp add: UserService_delete_def promise_defs reference_findByIdAsync
        reference_deleteAsync envelope_defs split: list.splits)

lemma filter_out_then_in: "filter (\<lambda>r. id' r = i) (filter (\<lambda>r. id' r \<noteq> i) rows) = []"
  by (induction rows) auto

lemma filter_id_map:
  assumes "\<And>r. id' (f r) = id' r"
  shows "filter (\<lambda>r. id' r = i) (map f rows) = map f (filter (\<lambda>r. id' r = i) rows)"
  using assms by (induction rows) auto

lemma filter_other_map:
  "filter (\<lambda>r. id' r \<noteq> i) (map (\<lambda>r. if id' r = i then g r else r) rows) =
   filter (\<lambda>r. id' r \<noteq> i) rows"
  if "\<And>r. id' (g r) = id' r"
  using that by (induction rows) auto

lemma map_unmatched:
  "filter (\<lambda>r. id' r = i) rows = [] \<Longrightarrow> map (\<lambda>r. if id' r = i then g r else r) rows = rows"
  by (induction rows) (auto split: if_splits)

section \<open>The update statement\<close>

lemma supplied_fields_columns:
  "(''name'' \<in> set (map fst (supplied_fields p))) = (name_opt p \<noteq> None)"
  "(''email'' \<in> set (map fst (supplied_fields p))) = (email_opt p \<noteq> None)"
  "(''age'' \<in> set (map fst (supplied_fields p))) = (age_opt p \<noteq> None)"
  "set (map fst (supplied_fields p)) \<subseteq> {''name'', ''email'', ''age''}"
  by (cases "name_opt p"; cases "email_opt p"; cases "age_opt p";
      simp add: supplied_fields_def)+

lemma supplied_fields_empty:
  "supplied_fields p = [] \<longleftrightarrow> name_opt p = None \<and> email_opt p = None \<and> age_opt p = None"
  by (cases "name_opt p"; cases "email_opt p"; cases "age_opt p")
     (simp_all add: supplied_fields_def)

lemma pushed_fields:
  "push_field ''age = ?'' (map_option BNumber (age_opt p))
     (push_field ''email = ?'' (map_option BString (email_opt p))
        (push_field ''name = ?'' (map_option BString (name_opt p)) ([], []))) =
   (map (\<lambda>(column, v). column @ '' = ?'') (supplied_fields p), map snd (supplied_fields p))"
  by (cases "name_opt p"; cases "email_opt p"; cases "age_opt p")
     (simp_all add: supplied_fields_def push_field_def)

lemma updateAsync_unfold:
  "UserRepository_updateAsync pl lg i p w =
     (if supplied_fields p = [] then UserRepository_findByIdAsync pl lg i w
      else
        (case query_header pl (update_statement (supplied_fields p))
                (map snd (supplied_fields p) @ [BNumber i]) w of
           (Inl e, w1) \<Rightarrow>
             await (read_message e) (\<lambda>msg. exec (lg (''Error updating user: '' @ msg)) (reject e)) w1
         | (Inr h, w1) \<Rightarrow>
             if affectedRows h = 0 then (Inr None, w1)
             else UserRepository_findByIdAsync pl lg i w1))"
  by (simp add: UserRepository_updateAsync_def Let_def pushed_fields promise_defs
        update_statement_def split: prod.splits sum.splits)

lemma set_clauses_update_statement:
  assumes "supplied_fields p \<noteq> []"
  shows "set_clauses (update_statement (supplied_fields p)) =
         Some (map (\<lambda>(column, v). column @ '' = ?'') (supplied_fields p))"
  using assms
  by (cases "name_opt p"; cases "email_opt p"; cases "age_opt p")
     (simp_all add: supplied_fields_def update_statement_def set_clauses_def)

lemma assign_all_supplied:
  "assign_all (map (\<lambda>(column, v). column @ '' = ?'') (supplied_fields p))
     (map snd (supplied_fields p) @ [BNumber i]) r = patched p r"
  by (cases "name_opt p"; cases "email_opt p"; cases "age_opt p")
     (simp_all add: supplied_fields_def patched_def)

lemma update_statement_not_other:
  "update_statement fs \<noteq> ''INSERT INTO users (name, email, age) VALUES (?, ?, ?)''"
  "update_statement fs \<noteq> ''DELETE FROM users WHERE id = ?''"
  by (simp_all add: update_statement_def)

lemma execute_update_statement:
  assumes "supplied_fields p \<noteq> []"
  shows "execute (update_statement (supplied_fields p))
           (map snd (supplied_fields p) @ [BNumber i]) db =
     (let rows = map (\<lambda>r. if id' r = i then touch (CURRENT_TIMESTAMP db) r (patched p r) else r)
                   (users db)
      in if distinct (map email (users db)) \<and> \<not> distinct (map email rows) then
           (Inl (Error ''ER_DUP_ENTRY''), db)
         else
           (Inr \<lparr>insertId = 0, affectedRows = length (filter (\<lambda>r. id' r = i) (users db))\<rparr>,
            db\<lparr>users := rows\<rparr>))"
  by (simp add: execute_def update_statement_not_other set_clauses_update_statement [OF assms]
        assign_all_supplied Let_def cong: if_cong)

lemma reference_updateAsync:
  "updateAsync userRepository i p v =
     (if supplied_fields p = [] then findByIdAsync userRepository i v
      else
        (let rows = map (\<lambda>r. if id' r = i
                              then touch (CURRENT_TIMESTAMP (database v)) r (patched p r) else r)
                      (users (database v))
         in if distinct (map email (users (database v))) \<and> \<not> distinct (map email rows) then
              (Inl (Error ''ER_DUP_ENTRY''), logger_error ''Error updating user: ER_DUP_ENTRY'' v)
            else if filter (\<lambda>r. id' r = i) (users (database v)) = [] then
              (Inr None, v\<lparr>database := (database v)\<lparr>users := rows\<rparr>\<rparr>)
            else findByIdAsync userRepository i (v\<lparr>database := (database v)\<lparr>users := rows\<rparr>\<rparr>)))"
  by (simp add: userRepository_def UserRepository_new_def updateAsync_unfold pool_def
        execute_update_statement Let_def promise_defs)

lemma reference_update_result:
  assumes "updateAsync userRepository i p v = (Inr (Some u), v')"
  shows "\<exists>r rest. filter (\<lambda>r. id' r = i) (users (database v)) = r # rest
         \<and> name u = (case name_opt p of None \<Rightarrow> name r | Some n \<Rightarrow> n)
         \<and> email u = (case email_opt p of None \<Rightarrow> email r | Some e \<Rightarrow> e)
         \<and> age u = (case age_opt p of None \<Rightarrow> age r | Some a \<Rightarrow> Some a)
         \<and> id' u = i
         \<and> findByIdAsync userRepository i v' = (Inr (Some u), v')
         \<and> filter (\<lambda>r. id' r \<noteq> i) (users (database v')) =
             filter (\<lambda>r. id' r \<noteq> i) (users (database v))"
proof (cases "supplied_fields p = []")
  case True
  with assms have fb: "findByIdAsync userRepository i v = (Inr (Some u), v')"
    by (simp add: reference_updateAsync)
  then have c: "(case filter (\<lambda>r. id' r = i) (users (database v)) of
                   [] \<Rightarrow> None | r # _ \<Rightarrow> Some (with_dates r)) = Some u"
    and v: "v' = v"
    by (auto simp: reference_findByIdAsync)
  from c obtain r rest where r: "filter (\<lambda>r. id' r = i) (users (database v)) = r # rest"
    by (cases "filter (\<lambda>r. id' r = i) (users (database v))") simp_all
  with c have u: "u = with_dates r"
    by simp
  from r have "r \<in> set (filter (\<lambda>r. id' r = i) (users (database v)))"
    by simp
  then have "id' r = i"
    by simp
  with True r u v fb show ?thesis
    by (simp add: supplied_fields_empty)
next
  case False
  define f where "f = (\<lambda>r. if id' r = i
     then touch (CURRENT_TIMESTAMP (database v)) r (patched p r) else r)"
  define v2 where "v2 = v\<lparr>database := (database v)\<lparr>users := map f (users (database v))\<rparr>\<rparr>"
  have idf: "\<And>r. id' (f r) = id' r"
    by (simp add: f_def)
  from assms False have ne: "filter (\<lambda>r. id' r = i) (users (database v)) \<noteq> []"
    and fb: "findByIdAsync userRepository i v2 = (Inr (Some u), v')"
    by (auto simp: reference_updateAsync Let_def f_def v2_def split: if_splits)
  from ne obtain r rest where r: "filter (\<lambda>r. id' r = i) (users (database v)) = r # rest"
    by (cases "filter (\<lambda>r. id' r = i) (users (database v))") simp_all
  then have "r \<in> set (filter (\<lambda>r. id' r = i) (users (database v)))"
    by simp
  then have ir: "id' r = i"
    by simp
  have sel: "filter (\<lambda>r. id' r = i) (users (database v2)) = f r # map f rest"
    by (simp add: v2_def filter_id_map [OF idf] r)
  from fb sel have u: "u = with_dates (f r)" and v: "v' = v2"
    by (auto simp: reference_findByIdAsync)
  have other: "filter (\<lambda>r. id' r \<noteq> i) (users (database v2)) =
      filter (\<lambda>r. id' r \<noteq> i) (users (database v))"
    by (simp add: v2_def f_def filter_other_map)
  from ir have fr: "f r = touch (CURRENT_TIMESTAMP (database v)) r (patched p r)"
    by (simp add: f_def)
  show ?thesis
    using r u v fb other ir
    by (auto simp: fr patched_def split: option.splits)
qed

lemma reference_update_absent:
  assumes "i \<notin> set (map id' (users (database v)))"
  shows "updateAsync userRepository i p v = (Inr None, v)"
proof -
  from assms have none: "filter (\<lambda>r. id' r = i) (users (database v)) = []"
    by (auto simp: filter_empty_conv)
  then show ?thesis
    by (simp add: reference_updateAsync reference_findByIdAsync Let_def map_unmatched)
qed

lemma updateAsync_rejects_values:
  assumes "UserRepository_updateAsync pl lg i p w = (Inl ex, w')"
  shows "\<not> nullish ex"
  using assms
  by (auto simp: updateAsync_unfold
      dest: repository_method_rejects_values handler_rethrows
      split: if_splits prod.splits sum.splits)

lemma repository_rejects_values: "rejects_values (UserRepository_new pl lg)"
  unfolding rejects_values_def
  by (auto simp: UserRepository_new_def flow_defs
      dest: repository_method_rejects_values updateAsync_rejects_values
      split: prod.splits sum.splits)

section \<open>The fixtures evaluated\<close>




lemma deleting_nothing_sel:
  "findByIdAsync deleting_nothing = findByIdAsync userRepository"
  "deleteAsync deleting_nothing i w = (Inr False, w)"
  by (simp_all add: deleting_nothing_def resolve_def)

lemma reference_update_alice:
  "updateAsync userRepository 1
     \<lparr>name_opt = None, email_opt = Some ''alice@example.com'', age_opt = Some 43\<rparr> mockWorld =
   (Inr (Some \<lparr>name = ''Alice'', email = ''alice@example.com'', age = Some 43, id' = 1,
               createdAt = Date 0, updatedAt = Date 1\<rparr>),
    mockWorld\<lparr>database := (database mockWorld)
      \<lparr>users :=
         [\<lparr>name = ''Alice'', email = ''alice@example.com'', age = Some 43, id' = 1,
           createdAt = Date 0, updatedAt = Raw 1\<rparr>,
          \<lparr>name = ''Bob'', email = ''bob@example.com'', age = Some 21, id' = 2,
           createdAt = Date 0, updatedAt = Date 0\<rparr>]\<rparr>\<rparr>)"
  by code_simp

lemma reference_update_age:
  "query_header pool
     (update_statement (supplied_fields \<lparr>name_opt = None, email_opt = None, age_opt = Some 40\<rparr>))
     (map snd (supplied_fields \<lparr>name_opt = None, email_opt = None, age_opt = Some 40\<rparr>) @
      [BNumber 1]) mockWorld =
     (Inr \<lparr>insertId = 0, affectedRows = 1\<rparr>, mockWorldAged40)"
  "query_header pool
     (update_statement (supplied_fields \<lparr>name_opt = None, email_opt = None, age_opt = Some 40\<rparr>))
     (map snd (supplied_fields \<lparr>name_opt = None, email_opt = None, age_opt = Some 40\<rparr>) @
      [BNumber 999]) mockWorld =
     (Inr \<lparr>insertId = 0, affectedRows = 0\<rparr>, mockWorld)"
  "updateAsync userRepository 1 \<lparr>name_opt = None, email_opt = None, age_opt = Some 40\<rparr>
     mockWorld = (Inr (Some (with_dates aliceAged40)), mockWorldAged40)"
  "UserRepository_findByIdAsync pool logger_error 1 mockWorldAged40 =
     (Inr (Some (with_dates aliceAged40)), mockWorldAged40)"
  by code_simp+

lemma reference_insert_charlie:
  "query_header pool ''INSERT INTO users (name, email, age) VALUES (?, ?, ?)''
     [BString (name charlie), BString (email charlie), bind_age (age charlie)] mockWorld =
     (Inr \<lparr>insertId = 3, affectedRows = 1\<rparr>, charlieInserted)"
  "query_rows pool ''SELECT * FROM users WHERE id = ?''
     [BNumber (insertId \<lparr>insertId = 3, affectedRows = 1\<rparr>)] charlieInserted =
     (Inr [charlieRow], charlieInserted)"
  "query_header pool_reading_nothing ''INSERT INTO users (name, email, age) VALUES (?, ?, ?)''
     [BString (name charlie), BString (email charlie), bind_age (age charlie)] mockWorld =
     (Inr \<lparr>insertId = 3, affectedRows = 1\<rparr>, charlieInserted)"
  "query_rows pool_reading_nothing ''SELECT * FROM users WHERE id = ?''
     [BNumber (insertId \<lparr>insertId = 3, affectedRows = 1\<rparr>)] charlieInserted =
     (Inr [], charlieInserted)"
  by code_simp+

section \<open>Creation and the uniqueness of email addresses\<close>

text \<open>
  Claim C1. \<^verbatim>\<open>UserService.create\<close> over any repository \<open>r\<close> whose calls are recorded: when
  \<open>findAllAsync\<close> resolves to the users \<open>us\<close> and one of them has exactly the email address of
  the input, the result is the failure envelope "Email already in use" with status 409 and the
  only call made is \<open>FindAll\<close>, so that \<open>createAsync\<close> is not invoked and the world is the one
  \<open>findAllAsync\<close> left; when none has it, \<open>createAsync\<close> is invoked next, and the record it
  resolves to is carried by the success envelope "User created successfully" with status 201.
  On the reference store the first case leaves the store as it was, and the second case
  always ends in the success envelope.
\<close>

theorem create_email_unique:
  "(\<forall>us w1. findAllAsync r w = (Inr (Some us), w1) \<longrightarrow>
      ((\<exists>u \<in> set us. email u = email d) \<longrightarrow>
         UserService_create (on_world lg) (recorded r) d (w, calls) =
           (Inr \<lparr>success = False, message = ''Email already in use'', responseObject = None,
                 statusCode = 409\<rparr>,
            (w1, calls @ [FindAll])))
    \<and> (\<not> (\<exists>u \<in> set us. email u = email d) \<longrightarrow>
         snd (snd (UserService_create (on_world lg) (recorded r) d (w, calls))) =
           calls @ [FindAll, Create d]
       \<and> (\<forall>u w2. createAsync r d w1 = (Inr u, w2) \<longrightarrow>
            UserService_create (on_world lg) (recorded r) d (w, calls) =
              (Inr \<lparr>success = True, message = ''User created successfully'',
                    responseObject = Some u, statusCode = 201\<rparr>,
               (w2, calls @ [FindAll, Create d])))))
   \<and> (email d \<in> set (map email (users (database v))) \<longrightarrow>
        UserService_create logger_error userRepository d v =
          (Inr \<lparr>success = False, message = ''Email already in use'', responseObject = None,
                statusCode = 409\<rparr>, v))
   \<and> (email d \<notin> set (map email (users (database v))) \<longrightarrow>
        (\<exists>u v'. UserService_create logger_error userRepository d v =
           (Inr \<lparr>success = True, message = ''User created successfully'',
                 responseObject = Some u, statusCode = 201\<rparr>, v')))"
proof (intro conjI allI impI)
  fix us w1
  assume fa: "findAllAsync r w = (Inr (Some us), w1)"
  {
    assume "\<exists>u \<in> set us. email u = email d"
    with fa show "UserService_create (on_world lg) (recorded r) d (w, calls) =
           (Inr \<lparr>success = False, message = ''Email already in use'', responseObject = None,
                 statusCode = 409\<rparr>,
            (w1, calls @ [FindAll]))"
      by (simp add: UserService_create_def promise_defs recorded_sel users_some_def list_ex_iff
            envelope_defs)
  next
    assume fresh: "\<not> (\<exists>u \<in> set us. email u = email d)"
    with fa show "snd (snd (UserService_create (on_world lg) (recorded r) d (w, calls))) =
           calls @ [FindAll, Create d]"
      by (simp add: UserService_create_def promise_defs recorded_sel users_some_def list_ex_iff
            on_world_def split: prod.splits sum.splits Thrown.splits)
    fix u w2
    assume "createAsync r d w1 = (Inr u, w2)"
    with fa fresh show "UserService_create (on_world lg) (recorded r) d (w, calls) =
              (Inr \<lparr>success = True, message = ''User created successfully'',
                    responseObject = Some u, statusCode = 201\<rparr>,
               (w2, calls @ [FindAll, Create d]))"
      by (simp add: UserService_create_def promise_defs recorded_sel users_some_def list_ex_iff
            envelope_defs)
  }
next
  assume "email d \<in> set (map email (users (database v)))"
  then have "list_ex (\<lambda>user. email user = email d) (map with_dates (users (database v)))"
    by (auto simp: list_ex_iff)
  then show "UserService_create logger_error userRepository d v =
          (Inr \<lparr>success = False, message = ''Email already in use'', responseObject = None,
                statusCode = 409\<rparr>, v)"
    by (simp add: UserService_create_def promise_defs reference_findAllAsync users_some_def
          envelope_defs)
next
  assume fresh: "email d \<notin> set (map email (users (database v)))"
  then have no: "\<not> list_ex (\<lambda>user. email user = email d) (map with_dates (users (database v)))"
    by (force simp: list_ex_iff image_iff)
  from reference_createAsync [OF fresh] obtain u v' where
    "createAsync userRepository d v = (Inr u, v')" by blast
  with no show "\<exists>u v'. UserService_create logger_error userRepository d v =
           (Inr \<lparr>success = True, message = ''User created successfully'',
                 responseObject = Some u, statusCode = 201\<rparr>, v')"
    by (simp add: UserService_create_def promise_defs reference_findAllAsync users_some_def
          envelope_defs)
qed

text \<open>
  The service tests' duplicate ("alice@example.com") and fresh ("charlie@example.com")
  inputs, on the store that holds the two mock users.
\<close>

theorem create_email_unique_witness:
  "UserService_create (on_world logger_error) (recorded userRepository)
     \<lparr>name = ''Duplicate'', email = ''alice@example.com'', age = Some 30\<rparr> (mockWorld, []) =
     (Inr \<lparr>success = False, message = ''Email already in use'', responseObject = None,
           statusCode = 409\<rparr>, (mockWorld, [FindAll]))
   \<and> UserService_create logger_error userRepository
     \<lparr>name = ''Duplicate'', email = ''alice@example.com'', age = Some 30\<rparr> mockWorld =
     (Inr \<lparr>success = False, message = ''Email already in use'', responseObject = None,
           statusCode = 409\<rparr>, mockWorld)
   \<and> snd (snd (UserService_create (on_world logger_error) (recorded userRepository)
     \<lparr>name = ''Charlie'', email = ''charlie@example.com'', age = Some 30\<rparr> (mockWorld, []))) =
     [FindAll, Create \<lparr>name = ''Charlie'', email = ''charlie@example.com'', age = Some 30\<rparr>]
   \<and> (\<exists>u v'. UserService_create logger_error userRepository
     \<lparr>name = ''Charlie'', email = ''charlie@example.com'', age = Some 30\<rparr> mockWorld =
     (Inr \<lparr>success = True, message = ''User created successfully'', responseObject = Some u,
           statusCode = 201\<rparr>, v'))"
  using create_email_unique [where r = userRepository and w = mockWorld and v = mockWorld
      and lg = logger_error and calls = "[]"
      and d = "\<lparr>name = ''Duplicate'', email = ''alice@example.com'', age = Some 30\<rparr>"]
    create_email_unique [where r = userRepository and w = mockWorld and v = mockWorld
      and lg = logger_error and calls = "[]"
      and d = "\<lparr>name = ''Charlie'', email = ''charlie@example.com'', age = Some 30\<rparr>"]
  by (simp add: reference_findAllAsync mockWorld_def mockUsers_def)

section \<open>Update and the uniqueness of email addresses\<close>

text \<open>
  Claim C2 as it is stated fails when the email address supplied is the empty string. In
  this store user 2 has the empty email address and user 1 has another one; updating user
  1 with the email "" meets every condition of the claim (supplied, different from the
  current one, equal to the email of a user with another id), yet the envelope is not the
  409 one and the calls are the look-up and the update: no scan is made and \<open>updateAsync\<close>
  is invoked.
\<close>

theorem update_email_conflict_counterexample:
  "map email (users (database blankEmailWorld)) = [''alice@example.com'', []]
 \<and> map id' (users (database blankEmailWorld)) = [1, 2]
 \<and> fst (UserService_update (on_world logger_error) (recorded userRepository) 1
         \<lparr>name_opt = None, email_opt = Some [], age_opt = None\<rparr> (blankEmailWorld, [])) \<noteq>
     Inr \<lparr>success = False, message = ''Email already in use'', responseObject = None,
           statusCode = 409\<rparr>
 \<and> snd (snd (UserService_update (on_world logger_error) (recorded userRepository) 1
         \<lparr>name_opt = None, email_opt = Some [], age_opt = None\<rparr> (blankEmailWorld, []))) =
     [FindById 1, Update 1 \<lparr>name_opt = None, email_opt = Some [], age_opt = None\<rparr>]"
  by (simp add: UserService_update_def promise_defs recorded_sel reference_findByIdAsync
        truthy_def Let_def blankEmailWorld_def envelope_defs on_world_def
      split: prod.splits sum.splits Thrown.splits)

text \<open>
  Claim C2, amended. \<^verbatim>\<open>UserService.update\<close> over any repository whose calls are recorded, for
  a target that exists: when the email address supplied is not the empty string, differs
  from the current one of the target and is the address of a user with another id among the
  users that \<open>findAllAsync\<close> resolves to, the result is the failure envelope "Email already in
  use" with status 409 and the calls are the look-up and the scan, so that \<open>updateAsync\<close> is
  not invoked. When no email address is supplied, or it is the empty string, or it is the
  current one of the target, the calls are the look-up and the update: the scan is skipped,
  and the record that \<open>updateAsync\<close> resolves to is carried by the success envelope.
\<close>

theorem update_email_conflict:
  "(\<forall>ex w1 m us w2.
      findByIdAsync r i w = (Inr (Some ex), w1) \<and>
      email_opt p = Some m \<and> m \<noteq> [] \<and> m \<noteq> email ex \<and>
      findAllAsync r w1 = (Inr (Some us), w2) \<and>
      (\<exists>u \<in> set us. email u = m \<and> id' u \<noteq> i) \<longrightarrow>
      UserService_update (on_world lg) (recorded r) i p (w, calls) =
        (Inr \<lparr>success = False, message = ''Email already in use'', responseObject = None,
              statusCode = 409\<rparr>,
         (w2, calls @ [FindById i, FindAll])))
 \<and> (\<forall>ex w1.
      findByIdAsync r i w = (Inr (Some ex), w1) \<and>
      (email_opt p = None \<or> email_opt p = Some [] \<or> email_opt p = Some (email ex)) \<longrightarrow>
      snd (snd (UserService_update (on_world lg) (recorded r) i p (w, calls))) =
        calls @ [FindById i, Update i p]
    \<and> (\<forall>u w2. updateAsync r i p w1 = (Inr (Some u), w2) \<longrightarrow>
         UserService_update (on_world lg) (recorded r) i p (w, calls) =
           (Inr \<lparr>success = True, message = ''User updated successfully'',
                 responseObject = Some u, statusCode = 200\<rparr>,
            (w2, calls @ [FindById i, Update i p]))))"
proof (intro conjI allI impI)
  fix ex w1 m us w2
  assume "findByIdAsync r i w = (Inr (Some ex), w1) \<and>
      email_opt p = Some m \<and> m \<noteq> [] \<and> m \<noteq> email ex \<and>
      findAllAsync r w1 = (Inr (Some us), w2) \<and>
      (\<exists>u \<in> set us. email u = m \<and> id' u \<noteq> i)"
  then show "UserService_update (on_world lg) (recorded r) i p (w, calls) =
        (Inr \<lparr>success = False, message = ''Email already in use'', responseObject = None,
              statusCode = 409\<rparr>,
         (w2, calls @ [FindById i, FindAll]))"
    by (auto simp: UserService_update_def promise_defs recorded_sel truthy_def Let_def
          users_some_def list_ex_iff envelope_defs)
next
  fix ex w1
  assume h: "findByIdAsync r i w = (Inr (Some ex), w1) \<and>
      (email_opt p = None \<or> email_opt p = Some [] \<or> email_opt p = Some (email ex))"
  then show "snd (snd (UserService_update (on_world lg) (recorded r) i p (w, calls))) =
        calls @ [FindById i, Update i p]"
    by (elim conjE disjE)
      (simp_all add: UserService_update_def promise_defs recorded_sel Let_def on_world_def
         truthy_def split: prod.splits sum.splits Thrown.splits)
  fix u w2
  assume "updateAsync r i p w1 = (Inr (Some u), w2)"
  with h show "UserService_update (on_world lg) (recorded r) i p (w, calls) =
           (Inr \<lparr>success = True, message = ''User updated successfully'',
                 responseObject = Some u, statusCode = 200\<rparr>,
            (w2, calls @ [FindById i, Update i p]))"
    by (elim conjE disjE)
      (simp_all add: UserService_update_def promise_defs recorded_sel Let_def envelope_defs
         truthy_def)
qed

text \<open>
  User 1 of the mock users asks for the address of user 2, and then re-submits its own
  address together with a new age.
\<close>

theorem update_email_conflict_witness:
  "UserService_update (on_world logger_error) (recorded userRepository) 1
     \<lparr>name_opt = None, email_opt = Some ''bob@example.com'', age_opt = None\<rparr> (mockWorld, []) =
     (Inr \<lparr>success = False, message = ''Email already in use'', responseObject = None,
           statusCode = 409\<rparr>, (mockWorld, [FindById 1, FindAll]))
 \<and> snd (snd (UserService_update (on_world logger_error) (recorded userRepository) 1
     \<lparr>name_opt = None, email_opt = Some ''alice@example.com'', age_opt = Some 43\<rparr>
     (mockWorld, []))) =
     [FindById 1,
      Update 1 \<lparr>name_opt = None, email_opt = Some ''alice@example.com'', age_opt = Some 43\<rparr>]
 \<and> fst (UserService_update (on_world logger_error) (recorded userRepository) 1
     \<lparr>name_opt = None, email_opt = Some ''alice@example.com'', age_opt = Some 43\<rparr>
     (mockWorld, [])) =
     Inr \<lparr>success = True, message = ''User updated successfully'',
           responseObject =
             Some \<lparr>name = ''Alice'', email = ''alice@example.com'', age = Some 43, id' = 1,
                   createdAt = Date 0, updatedAt = Date 1\<rparr>,
           statusCode = 200\<rparr>"
  using
    update_email_conflict [where r = userRepository and w = mockWorld and i = 1
      and lg = logger_error and calls = "[]"
      and p = "\<lparr>name_opt = None, email_opt = Some ''bob@example.com'', age_opt = None\<rparr>"]
    update_email_conflict [where r = userRepository and w = mockWorld and i = 1
      and lg = logger_error and calls = "[]"
      and p = "\<lparr>name_opt = None, email_opt = Some ''alice@example.com'', age_opt = Some 43\<rparr>"]
    reference_update_alice
  by (simp add: reference_findAllAsync reference_findByIdAsync mockWorld_def mockUsers_def
        with_dates_def)

section \<open>Errors of the repository\<close>





section \<open>The validation middleware\<close>

text \<open>
  Claim C4. When the schema throws a \<^verbatim>\<open>ZodError\<close> on the request, the middleware sets the
  status 400 and sends the failure envelope whose message is "Invalid input: " followed by
  the messages of the issues joined with ", ", and the world is unchanged. When the schema
  accepts the request, the middleware hands the request and the response it was given to
  \<open>next\<close>. In the first case the outcome is the same for every handler put in the place of
  \<open>next\<close>: neither the controller nor anything behind it runs.
\<close>

theorem validateRequest_rejects_or_passes:
  "(\<forall>err. schema (JObject [(''body'', body req), (''query'', query req), (''params'', params req)])
           = Inl err \<longrightarrow>
      validateRequest schema req res next w =
        (res\<lparr>response_status := 400,
             response_body :=
               Some \<lparr>success = False,
                     message = ''Invalid input: '' @ join '', '' (map issue_message (errors err)),
                     responseObject = None, statusCode = 400\<rparr>\<rparr>, w))
 \<and> (\<forall>out. schema (JObject [(''body'', body req), (''query'', query req), (''params'', params req)])
           = Inr out \<longrightarrow>
      validateRequest schema req res next w = next req res w)
 \<and> (\<forall>err other.
      schema (JObject [(''body'', body req), (''query'', query req), (''params'', params req)])
           = Inl err \<longrightarrow>
      validateRequest schema req res next w = validateRequest schema req res other w)"
  by (simp add: validateRequest_def handleServiceResponse_def Response_send_def
        Response_status_def envelope_defs)

text \<open>
  The update schema on a request with an empty body, which it rejects, and on a request
  that changes the name, which reaches the next handler as it came.
\<close>

theorem validateRequest_rejects_or_passes_witness:
  "parse (UpdateUserSchema (z_string []) (\<lambda>s. True))
     (JObject [(''body'', body emptyUpdateRequest), (''query'', query emptyUpdateRequest),
               (''params'', params emptyUpdateRequest)]) =
     Inl (ZodError [ZodIssue ''At least one field must be provided for update''])
 \<and> validateRequest (parse (UpdateUserSchema (z_string []) (\<lambda>s. True))) emptyUpdateRequest
       \<lparr>response_status = 200, response_body = None\<rparr>
       (\<lambda>req res w. (handleServiceResponse None res, req # w)) [] =
     (\<lparr>response_status = 400,
       response_body =
         Some \<lparr>success = False,
               message = ''Invalid input: At least one field must be provided for update'',
               responseObject = None, statusCode = 400\<rparr>\<rparr>, [])
 \<and> parse (UpdateUserSchema (z_string []) (\<lambda>s. True))
     (JObject [(''body'', body nameUpdateRequest), (''query'', query nameUpdateRequest),
               (''params'', params nameUpdateRequest)]) =
     Inr (JObject [(''params'', JObject [(''id'', JString ''1'')]),
                   (''body'', JObject [(''name'', JString ''Updated Name'')])])
 \<and> validateRequest (parse (UpdateUserSchema (z_string []) (\<lambda>s. True))) nameUpdateRequest
       \<lparr>response_status = 200, response_body = None\<rparr>
       (\<lambda>req res w. (handleServiceResponse None res, req # w)) [] =
     (handleServiceResponse None \<lparr>response_status = 200, response_body = None\<rparr>,
      [nameUpdateRequest])"
proof -
  have e: "parse (UpdateUserSchema (z_string []) (\<lambda>s. True))
     (JObject [(''body'', body emptyUpdateRequest), (''query'', query emptyUpdateRequest),
               (''params'', params emptyUpdateRequest)]) =
     Inl (ZodError [ZodIssue ''At least one field must be provided for update''])"
    by (simp add: parse_def UpdateUserSchema_def z_object_def refine_def optional_def
          merge_status_def z_string_def run_checks_def List.map_filter_def
          emptyUpdateRequest_def)
  have n: "parse (UpdateUserSchema (z_string []) (\<lambda>s. True))
     (JObject [(''body'', body nameUpdateRequest), (''query'', query nameUpdateRequest),
               (''params'', params nameUpdateRequest)]) =
     Inr (JObject [(''params'', JObject [(''id'', JString ''1'')]),
                   (''body'', JObject [(''name'', JString ''Updated Name'')])])"
    by (simp add: parse_def UpdateUserSchema_def z_object_def refine_def optional_def
          merge_status_def z_string_def z_number_def run_checks_def List.map_filter_def
          string_min_def nameUpdateRequest_def)
  note a = validateRequest_rejects_or_passes [where req = emptyUpdateRequest
      and schema = "parse (UpdateUserSchema (z_string []) (\<lambda>s. True))"
      and res = "\<lparr>response_status = 200, response_body = None\<rparr>"
      and w = "[]" and ?next = "\<lambda>req res w. (handleServiceResponse None res, req # w)",
      THEN conjunct1, rule_format, OF e]
  note b = validateRequest_rejects_or_passes [where req = nameUpdateRequest
      and schema = "parse (UpdateUserSchema (z_string []) (\<lambda>s. True))"
      and res = "\<lparr>response_status = 200, response_body = None\<rparr>"
      and w = "[]" and ?next = "\<lambda>req res w. (handleServiceResponse None res, req # w)",
      THEN conjunct2, THEN conjunct1, rule_format, OF n]
  from e n a b show ?thesis by simp
qed

section \<open>The update of the repository\<close>

text \<open>
  Claim C5. \<^verbatim>\<open>UserRepository.updateAsync\<close> over any pool. With no field supplied it is
  \<open>findByIdAsync\<close>. Otherwise the one statement it issues is the update statement of the
  supplied fields, with their values followed by the id: when the pool reports no affected
  row the result is \<^verbatim>\<open>null\<close> and nothing is read, and when it reports affected rows the result
  is that of \<open>findByIdAsync\<close> run afterwards. A column is among the supplied fields exactly
  when its field is defined. On the reference store, a user that \<open>updateAsync\<close> resolves to
  has the new value in each supplied field and the stored value in each other one, it is
  what a further look-up returns, and the rows of other ids are as before; for an id that no
  row has the result is \<^verbatim>\<open>null\<close> and the store is unchanged.
\<close>

theorem updateAsync_supplied_fields_only:
  "(supplied_fields p = [] \<longrightarrow>
      UserRepository_updateAsync pl lg i p w = UserRepository_findByIdAsync pl lg i w)
 \<and> (\<forall>h w1.
      supplied_fields p \<noteq> [] \<and>
      query_header pl (update_statement (supplied_fields p))
        (map snd (supplied_fields p) @ [BNumber i]) w = (Inr h, w1) \<longrightarrow>
      (affectedRows h = 0 \<longrightarrow> UserRepository_updateAsync pl lg i p w = (Inr None, w1))
    \<and> (affectedRows h \<noteq> 0 \<longrightarrow>
         UserRepository_updateAsync pl lg i p w = UserRepository_findByIdAsync pl lg i w1))
 \<and> (''name'' \<in> set (map fst (supplied_fields p))) = (name_opt p \<noteq> None)
 \<and> (''email'' \<in> set (map fst (supplied_fields p))) = (email_opt p \<noteq> None)
 \<and> (''age'' \<in> set (map fst (supplied_fields p))) = (age_opt p \<noteq> None)
 \<and> set (map fst (supplied_fields p)) \<subseteq> {''name'', ''email'', ''age''}
 \<and> (\<forall>u v'. updateAsync userRepository i p v = (Inr (Some u), v') \<longrightarrow>
      (\<exists>r rest. filter (\<lambda>r. id' r = i) (users (database v)) = r # rest
         \<and> name u = (case name_opt p of None \<Rightarrow> name r | Some n \<Rightarrow> n)
         \<and> email u = (case email_opt p of None \<Rightarrow> email r | Some e \<Rightarrow> e)
         \<and> age u = (case age_opt p of None \<Rightarrow> age r | Some a \<Rightarrow> Some a)
         \<and> id' u = i
         \<and> findByIdAsync userRepository i v' = (Inr (Some u), v')
         \<and> filter (\<lambda>r. id' r \<noteq> i) (users (database v')) =
             filter (\<lambda>r. id' r \<noteq> i) (users (database v))))
 \<and> (i \<notin> set (map id' (users (database v))) \<longrightarrow>
      updateAsync userRepository i p v = (Inr None, v))"
proof (intro conjI allI impI)
  assume "supplied_fields p = []"
  then show "UserRepository_updateAsync pl lg i p w = UserRepository_findByIdAsync pl lg i w"
    by (simp add: updateAsync_unfold)
next
  fix h w1
  assume q: "supplied_fields p \<noteq> [] \<and>
      query_header pl (update_statement (supplied_fields p))
        (map snd (supplied_fields p) @ [BNumber i]) w = (Inr h, w1)"
  {
    assume "affectedRows h = 0"
    with q show "UserRepository_updateAsync pl lg i p w = (Inr None, w1)"
      by (simp add: updateAsync_unfold)
  next
    assume "affectedRows h \<noteq> 0"
    with q show "UserRepository_updateAsync pl lg i p w = UserRepository_findByIdAsync pl lg i w1"
      by (simp add: updateAsync_unfold)
  }
next
  fix u v'
  assume "updateAsync userRepository i p v = (Inr (Some u), v')"
  then show "\<exists>r rest. filter (\<lambda>r. id' r = i) (users (database v)) = r # rest
         \<and> name u = (case name_opt p of None \<Rightarrow> name r | Some n \<Rightarrow> n)
         \<and> email u = (case email_opt p of None \<Rightarrow> email r | Some e \<Rightarrow> e)
         \<and> age u = (case age_opt p of None \<Rightarrow> age r | Some a \<Rightarrow> Some a)
         \<and> id' u = i
         \<and> findByIdAsync userRepository i v' = (Inr (Some u), v')
         \<and> filter (\<lambda>r. id' r \<noteq> i) (users (database v')) =
             filter (\<lambda>r. id' r \<noteq> i) (users (database v))"
    by (rule reference_update_result)
next
  assume "i \<notin> set (map id' (users (database v)))"
  then show "updateAsync userRepository i p v = (Inr None, v)"
    by (rule reference_update_absent)
qed (rule supplied_fields_columns)+

text \<open>
  The scenario of the specification: user 1 gets the age 40 and keeps name and email; the
  same update for the unknown id 999; and an update without fields.
\<close>

theorem updateAsync_supplied_fields_only_witness:
  "UserRepository_updateAsync pool logger_error 1
     \<lparr>name_opt = None, email_opt = None, age_opt = None\<rparr> mockWorld =
     UserRepository_findByIdAsync pool logger_error 1 mockWorld
 \<and> UserRepository_updateAsync pool logger_error 1
     \<lparr>name_opt = None, email_opt = None, age_opt = Some 40\<rparr> mockWorld =
     (Inr (Some (with_dates aliceAged40)), mockWorldAged40)
 \<and> UserRepository_updateAsync pool logger_error 999
     \<lparr>name_opt = None, email_opt = None, age_opt = Some 40\<rparr> mockWorld = (Inr None, mockWorld)
 \<and> name (with_dates aliceAged40) = ''Alice''
 \<and> email (with_dates aliceAged40) = ''alice@example.com''
 \<and> age (with_dates aliceAged40) = Some 40
 \<and> updateAsync userRepository 999
     \<lparr>name_opt = None, email_opt = None, age_opt = Some 40\<rparr> mockWorld = (Inr None, mockWorld)"
  using
    updateAsync_supplied_fields_only [where pl = pool and lg = logger_error and i = 1
      and w = mockWorld and v = mockWorld
      and p = "\<lparr>name_opt = None, email_opt = None, age_opt = None\<rparr>"]
    updateAsync_supplied_fields_only [where pl = pool and lg = logger_error and i = 1
      and w = mockWorld and v = mockWorld
      and p = "\<lparr>name_opt = None, email_opt = None, age_opt = Some 40\<rparr>"]
    updateAsync_supplied_fields_only [where pl = pool and lg = logger_error and i = 999
      and w = mockWorld and v = mockWorld
      and p = "\<lparr>name_opt = None, email_opt = None, age_opt = Some 40\<rparr>"]
    reference_update_age
  by (simp add: supplied_fields_def mockWorld_def mockUsers_def aliceAged40_def)

section \<open>Deleting twice\<close>

text \<open>
  Claim C6. On the reference store, for every id and every store: the first
  \<^verbatim>\<open>UserService.delete\<close> resolves to the success envelope "User deleted successfully" with a
  \<^verbatim>\<open>null\<close> payload and status 204 when a row has the id, and the second one, run on the world
  the first one left, resolves to the failure envelope "User not found" with status 404.
  Over any repository whose calls are recorded: the first call is the look-up by id; when the
  look-up finds nothing it is the only call; when it finds a user and \<open>deleteAsync\<close> reports
  that no row was affected the result is the failure envelope "Failed to delete user" with
  status 500, and when it reports an affected row the result is the 204 envelope.
\<close>

theorem delete_twice:
  "(i \<in> set (map id' (users (database w))) \<longrightarrow>
      fst (UserService_delete logger_error userRepository i w) =
        Inr \<lparr>success = True, message = ''User deleted successfully'', responseObject = None,
              statusCode = 204\<rparr>)
 \<and> fst (UserService_delete logger_error userRepository i
           (snd (UserService_delete logger_error userRepository i w))) =
      Inr \<lparr>success = False, message = ''User not found'', responseObject = None,
            statusCode = 404\<rparr>
 \<and> (\<exists>cs. snd (snd (UserService_delete (on_world lg) (recorded r) i (v, calls))) =
            calls @ FindById i # cs)
 \<and> (\<forall>v1. findByIdAsync r i v = (Inr None, v1) \<longrightarrow>
      UserService_delete (on_world lg) (recorded r) i (v, calls) =
        (Inr \<lparr>success = False, message = ''User not found'', responseObject = None,
              statusCode = 404\<rparr>, (v1, calls @ [FindById i])))
 \<and> (\<forall>ex v1 v2. findByIdAsync r i v = (Inr (Some ex), v1) \<and>
      deleteAsync r i v1 = (Inr False, v2) \<longrightarrow>
      UserService_delete (on_world lg) (recorded r) i (v, calls) =
        (Inr \<lparr>success = False, message = ''Failed to delete user'', responseObject = None,
              statusCode = 500\<rparr>, (v2, calls @ [FindById i, Delete i])))
 \<and> (\<forall>ex v1 v2. findByIdAsync r i v = (Inr (Some ex), v1) \<and>
      deleteAsync r i v1 = (Inr True, v2) \<longrightarrow>
      UserService_delete (on_world lg) (recorded r) i (v, calls) =
        (Inr \<lparr>success = True, message = ''User deleted successfully'', responseObject = None,
              statusCode = 204\<rparr>, (v2, calls @ [FindById i, Delete i])))"
proof (intro conjI allI impI)
  assume "i \<in> set (map id' (users (database w)))"
  then have "filter (\<lambda>r. id' r = i) (users (database w)) \<noteq> []"
    by (auto simp: filter_empty_conv)
  then show "fst (UserService_delete logger_error userRepository i w) =
        Inr \<lparr>success = True, message = ''User deleted successfully'', responseObject = None,
              statusCode = 204\<rparr>"
    by (simp add: reference_delete)
next
  show "fst (UserService_delete logger_error userRepository i
           (snd (UserService_delete logger_error userRepository i w))) =
      Inr \<lparr>success = False, message = ''User not found'', responseObject = None,
            statusCode = 404\<rparr>"
    by (simp add: reference_delete filter_out_then_in)
next
  show "\<exists>cs. snd (snd (UserService_delete (on_world lg) (recorded r) i (v, calls))) =
            calls @ FindById i # cs"
    by (auto simp: UserService_delete_def promise_defs recorded_sel on_world_def
        split: prod.splits sum.splits Thrown.splits)
next
  fix v1 assume "findByIdAsync r i v = (Inr None, v1)"
  then show "UserService_delete (on_world lg) (recorded r) i (v, calls) =
        (Inr \<lparr>success = False, message = ''User not found'', responseObject = None,
              statusCode = 404\<rparr>, (v1, calls @ [FindById i]))"
    by (simp add: UserService_delete_def promise_defs recorded_sel envelope_defs)
next
  fix ex v1 v2
  assume "findByIdAsync r i v = (Inr (Some ex), v1) \<and> deleteAsync r i v1 = (Inr False, v2)"
  then show "UserService_delete (on_world lg) (recorded r) i (v, calls) =
        (Inr \<lparr>success = False, message = ''Failed to delete user'', responseObject = None,
              statusCode = 500\<rparr>, (v2, calls @ [FindById i, Delete i]))"
    by (simp add: UserService_delete_def promise_defs recorded_sel envelope_defs)
next
  fix ex v1 v2
  assume "findByIdAsync r i v = (Inr (Some ex), v1) \<and> deleteAsync r i v1 = (Inr True, v2)"
  then show "UserService_delete (on_world lg) (recorded r) i (v, calls) =
        (Inr \<lparr>success = True, message = ''User deleted successfully'', responseObject = None,
              statusCode = 204\<rparr>, (v2, calls @ [FindById i, Delete i]))"
    by (simp add: UserService_delete_def promise_defs recorded_sel envelope_defs)
qed

text \<open>
  Deleting user 1 of the mock users twice, deleting the unknown id 999, and deleting with a
  repository whose deletion reports no affected row.
\<close>

theorem delete_twice_witness:
  "fst (UserService_delete logger_error userRepository 1 mockWorld) =
     Inr \<lparr>success = True, message = ''User deleted successfully'', responseObject = None,
           statusCode = 204\<rparr>
 \<and> fst (UserService_delete logger_error userRepository 1
          (snd (UserService_delete logger_error userRepository 1 mockWorld))) =
     Inr \<lparr>success = False, message = ''User not found'', responseObject = None,
           statusCode = 404\<rparr>
 \<and> UserService_delete (on_world logger_error) (recorded userRepository) 999 (mockWorld, []) =
     (Inr \<lparr>success = False, message = ''User not found'', responseObject = None,
           statusCode = 404\<rparr>, (mockWorld, [FindById 999]))
 \<and> UserService_delete (on_world logger_error) (recorded deleting_nothing) 1 (mockWorld, []) =
     (Inr \<lparr>success = False, message = ''Failed to delete user'', responseObject = None,
           statusCode = 500\<rparr>, (mockWorld, [FindById 1, Delete 1]))
 \<and> UserService_delete (on_world logger_error) (recorded userRepository) 1 (mockWorld, []) =
     (Inr \<lparr>success = True, message = ''User deleted successfully'', responseObject = None,
           statusCode = 204\<rparr>,
      (mockWorld\<lparr>database := (database mockWorld)\<lparr>users := [mockUsers ! 1]\<rparr>\<rparr>,
       [FindById 1, Delete 1]))"
  using
    delete_twice [where w = mockWorld and i = 1 and r = userRepository and v = mockWorld
      and lg = logger_error and calls = "[]"]
    delete_twice [where w = mockWorld and i = 999 and r = userRepository and v = mockWorld
      and lg = logger_error and calls = "[]"]
    delete_twice [where w = mockWorld and i = 1 and r = deleting_nothing and v = mockWorld
      and lg = logger_error and calls = "[]"]
  by (simp add: deleting_nothing_sel reference_findByIdAsync reference_deleteAsync
        mockWorld_def mockUsers_def)

section \<open>The empty update body\<close>

lemma update_schema_empty_body:
  assumes "body req = JObject []"
  shows "parse (UpdateUserSchema commonValidations_id is_email)
           (JObject [(''body'', body req), (''query'', query req), (''params'', params req)]) =
         Inl (ZodError
               (fst (snd (z_object [(''id'', commonValidations_id)] (Some (params req)))) @
                [ZodIssue ''At least one field must be provided for update'']))"
  using assms
  by (simp add: parse_def UpdateUserSchema_def z_object_def refine_def optional_def
        merge_status_def split: prod.splits)

text \<open>
  Claim C7. A request to the update endpoint whose body is the empty object is answered by
  the middleware with status 400 and a message that starts with "Invalid input: " and ends
  with the message of the refinement, "At least one field must be provided for update",
  after the issues of the path parameters, if any. This holds for every schema of the id,
  every handler \<open>next\<close> and every world \<open>w\<close>: the controller is not reached, whether the
  target exists or not.
\<close>

theorem empty_update_body_rejected:
  assumes "body req = JObject []"
  shows "validateRequest (parse (UpdateUserSchema commonValidations_id is_email)) req res next w =
     (res\<lparr>response_status := 400,
          response_body :=
            Some \<lparr>success = False,
                  message =
                    ''Invalid input: '' @
                    join '', ''
                      (map issue_message
                         (fst (snd (z_object [(''id'', commonValidations_id)] (Some (params req))))) @
                       [''At least one field must be provided for update'']),
                  responseObject = None, statusCode = 400\<rparr>\<rparr>, w)"
  by (simp add: validateRequest_def update_schema_empty_body [OF assms] handleServiceResponse_def
        Response_send_def Response_status_def envelope_defs)

text \<open>
  \<^verbatim>\<open>PUT /users/1\<close> with the body \<^verbatim>\<open>{}\<close>, as in the router tests.
\<close>

theorem empty_update_body_rejected_witness:
  "body emptyUpdateRequest = JObject []
 \<and> validateRequest (parse (UpdateUserSchema (z_string []) (\<lambda>s. True))) emptyUpdateRequest
       \<lparr>response_status = 200, response_body = None\<rparr>
       (\<lambda>req res w. (handleServiceResponse None res, req # w)) [] =
     (\<lparr>response_status = 400,
       response_body =
         Some \<lparr>success = False,
               message = ''Invalid input: At least one field must be provided for update'',
               responseObject = None, statusCode = 400\<rparr>\<rparr>, [])"
proof -
  have b: "body emptyUpdateRequest = JObject []"
    by (simp add: emptyUpdateRequest_def)
  from b empty_update_body_rejected [OF b, where commonValidations_id = "z_string []"
      and is_email = "\<lambda>s. True" and res = "\<lparr>response_status = 200, response_body = None\<rparr>"
      and w = "[]" and ?next = "\<lambda>req res w. (handleServiceResponse None res, req # w)"]
  show ?thesis
    by (simp add: z_object_def z_string_def run_checks_def List.map_filter_def
          emptyUpdateRequest_def)
qed

section \<open>Payload and success flag\<close>

text \<open>
  Claim C8. Whatever the repository does, every envelope that \<open>findAll\<close>, \<open>findById\<close>,
  \<open>create\<close> or \<open>update\<close> resolves to has a payload exactly when its success flag is true,
  and every envelope that \<open>delete\<close> resolves to has none; so every failure envelope has the
  \<^verbatim>\<open>null\<close> payload. When the repository rejects only with values other than \<^verbatim>\<open>null\<close> and
  \<^verbatim>\<open>undefined\<close>, each operation does resolve to such an envelope.
\<close>

theorem envelope_payload_iff_success:
  "(\<forall>resp w'. UserService_findAll lg r w = (Inr resp, w') \<longrightarrow>
       (responseObject resp \<noteq> None) = success resp)
 \<and> (\<forall>resp w'. UserService_findById lg r i w = (Inr resp, w') \<longrightarrow>
       (responseObject resp \<noteq> None) = success resp)
 \<and> (\<forall>resp w'. UserService_create lg r d w = (Inr resp, w') \<longrightarrow>
       (responseObject resp \<noteq> None) = success resp)
 \<and> (\<forall>resp w'. UserService_update lg r i p w = (Inr resp, w') \<longrightarrow>
       (responseObject resp \<noteq> None) = success resp)
 \<and> (\<forall>resp w'. UserService_delete lg r i w = (Inr resp, w') \<longrightarrow>
       responseObject resp = None)
 \<and> (rejects_values r \<longrightarrow>
      (\<exists>resp w'. UserService_findAll lg r w = (Inr resp, w') \<and>
       (responseObject resp \<noteq> None) = success resp)
    \<and> (\<exists>resp w'. UserService_findById lg r i w = (Inr resp, w') \<and>
       (responseObject resp \<noteq> None) = success resp)
    \<and> (\<exists>resp w'. UserService_create lg r d w = (Inr resp, w') \<and>
       (responseObject resp \<noteq> None) = success resp)
    \<and> (\<exists>resp w'. UserService_update lg r i p w = (Inr resp, w') \<and>
       (responseObject resp \<noteq> None) = success resp)
    \<and> (\<exists>resp w'. UserService_delete lg r i w = (Inr resp, w') \<and>
       responseObject resp = None))"
proof -
  have a0: "\<forall>resp w'. UserService_findAll lg r w = (Inr resp, w') \<longrightarrow>
       (responseObject resp \<noteq> None) = success resp"
  proof (intro allI impI)
    fix resp w'
    assume "UserService_findAll lg r w = (Inr resp, w')"
    from this [unfolded UserService_findAll_def, THEN try_catch_envelope] show "(responseObject resp \<noteq> None) = success resp"
      by (auto simp: flow_defs envelope_defs
          split: prod.splits sum.splits option.splits if_splits)
  qed
  have a1: "\<forall>resp w'. UserService_findById lg r i w = (Inr resp, w') \<longrightarrow>
       (responseObject resp \<noteq> None) = success resp"
  proof (intro allI impI)
    fix resp w'
    assume "UserService_findById lg r i w = (Inr resp, w')"
    from this [unfolded UserService_findById_def, THEN try_catch_envelope] show "(responseObject resp \<noteq> None) = success resp"
      by (auto simp: flow_defs envelope_defs
          split: prod.splits sum.splits option.splits if_splits)
  qed
  have a2: "\<forall>resp w'. UserService_create lg r d w = (Inr resp, w') \<longrightarrow>
       (responseObject resp \<noteq> None) = success resp"
  proof (intro allI impI)
    fix resp w'
    assume "UserService_create lg r d w = (Inr resp, w')"
    from this [unfolded UserService_create_def, THEN try_catch_envelope] show "(responseObject resp \<noteq> None) = success resp"
      by (auto simp: flow_defs envelope_defs users_some_def
          split: prod.splits sum.splits option.splits if_splits)
  qed
  have a3: "\<forall>resp w'. UserService_update lg r i p w = (Inr resp, w') \<longrightarrow>
       (responseObject resp \<noteq> None) = success resp"
  proof (intro allI impI)
    fix resp w'
    assume "UserService_update lg r i p w = (Inr resp, w')"
    from this [unfolded UserService_update_def, THEN try_catch_envelope] show "(responseObject resp \<noteq> None) = success resp"
      by (auto simp: flow_defs envelope_defs users_some_def Let_def truthy_def
          split: prod.splits sum.splits option.splits if_splits)
  qed
  have a4: "\<forall>resp w'. UserService_delete lg r i w = (Inr resp, w') \<longrightarrow>
       responseObject resp = None"
  proof (intro allI impI)
    fix resp w'
    assume "UserService_delete lg r i w = (Inr resp, w')"
    from this [unfolded UserService_delete_def, THEN try_catch_envelope] show "responseObject resp = None"
      by (auto simp: flow_defs envelope_defs
          split: prod.splits sum.splits option.splits if_splits)
  qed
  have e0: "\<exists>resp w'. UserService_findAll lg r w = (Inr resp, w') \<and>
       (responseObject resp \<noteq> None) = success resp"
    if "rejects_values r"
    using a0 service_resolves(1) [OF that, of lg] by blast
  have e1: "\<exists>resp w'. UserService_findById lg r i w = (Inr resp, w') \<and>
       (responseObject resp \<noteq> None) = success resp"
    if "rejects_values r"
    using a1 service_resolves(2) [OF that, of lg] by blast
  have e2: "\<exists>resp w'. UserService_create lg r d w = (Inr resp, w') \<and>
       (responseObject resp \<noteq> None) = success resp"
    if "rejects_values r"
    using a2 service_resolves(3) [OF that, of lg] by blast
  have e3: "\<exists>resp w'. UserService_update lg r i p w = (Inr resp, w') \<and>
       (responseObject resp \<noteq> None) = success resp"
    if "rejects_values r"
    using a3 service_resolves(4) [OF that, of lg] by blast
  have e4: "\<exists>resp w'. UserService_delete lg r i w = (Inr resp, w') \<and>
       responseObject resp = None"
    if "rejects_values r"
    using a4 service_resolves(5) [OF that, of lg] by blast
  show ?thesis
    by (intro conjI impI) (rule a0 a1 a2 a3 a4 | erule e0 e1 e2 e3 e4)+
qed

text \<open>
  Looking up user 1 and the unknown id 999 in the store of the mock users, whose
  repository is the one of the source.
\<close>

lemma reference_findById_service:
  "UserService_findById logger_error userRepository 1 mockWorld =
     (Inr \<lparr>success = True, message = ''User found'', responseObject = Some (mockUsers ! 0),
           statusCode = 200\<rparr>, mockWorld)"
  "UserService_findById logger_error userRepository 999 mockWorld =
     (Inr \<lparr>success = False, message = ''User not found'', responseObject = None,
           statusCode = 404\<rparr>, mockWorld)"
  by code_simp+

theorem envelope_payload_iff_success_witness:
  "rejects_values userRepository
 \<and> UserService_findById logger_error userRepository 1 mockWorld =
     (Inr \<lparr>success = True, message = ''User found'', responseObject = Some (mockUsers ! 0),
           statusCode = 200\<rparr>, mockWorld)
 \<and> UserService_findById logger_error userRepository 999 mockWorld =
     (Inr \<lparr>success = False, message = ''User not found'', responseObject = None,
           statusCode = 404\<rparr>, mockWorld)
 \<and> (\<exists>resp w'. UserService_delete logger_error userRepository 1 mockWorld = (Inr resp, w') \<and>
       responseObject resp = None)"
proof -
  have rv: "rejects_values userRepository"
    unfolding userRepository_def by (rule repository_rejects_values)
  note t = envelope_payload_iff_success [where r = userRepository and lg = logger_error
      and w = mockWorld and i = 1]
  from t rv have "\<exists>resp w'. UserService_delete logger_error userRepository 1 mockWorld =
      (Inr resp, w') \<and> responseObject resp = None"
    by blast
  moreover from t reference_findById_service(1) have
    "(responseObject
        \<lparr>success = True, message = ''User found'', responseObject = Some (mockUsers ! 0),
          statusCode = 200\<rparr> \<noteq> None) =
     success
        \<lparr>success = True, message = ''User found'', responseObject = Some (mockUsers ! 0),
          statusCode = 200\<rparr>"
    by blast
  ultimately show ?thesis
    using rv reference_findById_service by simp
qed

section \<open>The transport adapter\<close>

text \<open>
  Claim C9. Without an envelope, \<^verbatim>\<open>handleServiceResponse\<close> sets the status 500 and sends the
  fixed failure envelope "An unexpected error occurred: Service response is undefined"; with
  an envelope, it sets the status to the envelope's status code and sends the envelope
  itself.
\<close>

theorem handleServiceResponse_verbatim:
  "handleServiceResponse None res =
     res\<lparr>response_status := 500,
         response_body :=
           Some \<lparr>success = False,
                 message = ''An unexpected error occurred: Service response is undefined'',
                 responseObject = None, statusCode = 500\<rparr>\<rparr>
 \<and> handleServiceResponse (Some sr) res =
     res\<lparr>response_status := statusCode sr, response_body := Some sr\<rparr>"
  by (simp add: handleServiceResponse_def Response_send_def Response_status_def StatusCodes)

section \<open>The creation of the repository\<close>

text \<open>
  Claim C10. \<^verbatim>\<open>UserRepository.createAsync\<close> over any pool: after the insertion, when the
  re-read by the assigned id returns rows, the result is the first of them (with its dates
  coerced), without any test; every value that \<open>createAsync\<close> resolves to arises this way,
  from a re-read that was not empty. There is no \<^verbatim>\<open>null\<close> among its results: on an empty re-read
  the access to the first row raises a TypeError, which is logged and thrown again. On the
  reference store an insertion with a fresh email address always resolves to a user,
  whereas \<open>updateAsync\<close> resolves to \<^verbatim>\<open>null\<close> for an id that no row has.
\<close>

theorem createAsync_first_row:
  "(\<forall>h w1 rows w2.
      query_header pl ''INSERT INTO users (name, email, age) VALUES (?, ?, ?)''
        [BString (name d), BString (email d), bind_age (age d)] w = (Inr h, w1) \<and>
      query_rows pl ''SELECT * FROM users WHERE id = ?'' [BNumber (insertId h)] w1 =
        (Inr rows, w2) \<longrightarrow>
      (rows \<noteq> [] \<longrightarrow>
         UserRepository_createAsync pl lg d w = (Inr (with_dates (hd rows)), w2))
    \<and> (rows = [] \<longrightarrow>
         UserRepository_createAsync pl lg d w =
           (Inl (TypeError ''Cannot read properties of undefined (reading 'createdAt')''),
            lg ''Error creating user: Cannot read properties of undefined (reading 'createdAt')''
              w2)))
 \<and> (\<forall>u w'. UserRepository_createAsync pl lg d w = (Inr u, w') \<longrightarrow>
      (\<exists>h w1 rows.
         query_header pl ''INSERT INTO users (name, email, age) VALUES (?, ?, ?)''
           [BString (name d), BString (email d), bind_age (age d)] w = (Inr h, w1) \<and>
         query_rows pl ''SELECT * FROM users WHERE id = ?'' [BNumber (insertId h)] w1 =
           (Inr rows, w') \<and>
         rows \<noteq> [] \<and> u = with_dates (hd rows)))
 \<and> (email d \<notin> set (map email (users (database v))) \<longrightarrow>
      (\<exists>u v'. createAsync userRepository d v = (Inr u, v')))
 \<and> (i \<notin> set (map id' (users (database v))) \<longrightarrow>
      updateAsync userRepository i p v = (Inr None, v))"
proof (intro conjI allI impI)
  fix h w1 rows w2
  assume q: "query_header pl ''INSERT INTO users (name, email, age) VALUES (?, ?, ?)''
        [BString (name d), BString (email d), bind_age (age d)] w = (Inr h, w1) \<and>
      query_rows pl ''SELECT * FROM users WHERE id = ?'' [BNumber (insertId h)] w1 =
        (Inr rows, w2)"
  {
    assume "rows \<noteq> []"
    with q show "UserRepository_createAsync pl lg d w = (Inr (with_dates (hd rows)), w2)"
      by (cases rows) (simp_all add: UserRepository_createAsync_def promise_defs)
  next
    assume "rows = []"
    with q show "UserRepository_createAsync pl lg d w =
           (Inl (TypeError ''Cannot read properties of undefined (reading 'createdAt')''),
            lg ''Error creating user: Cannot read properties of undefined (reading 'createdAt')''
              w2)"
      by (simp add: UserRepository_createAsync_def promise_defs)
  }
next
  fix u w'
  assume "UserRepository_createAsync pl lg d w = (Inr u, w')"
  then show "\<exists>h w1 rows.
         query_header pl ''INSERT INTO users (name, email, age) VALUES (?, ?, ?)''
           [BString (name d), BString (email d), bind_age (age d)] w = (Inr h, w1) \<and>
         query_rows pl ''SELECT * FROM users WHERE id = ?'' [BNumber (insertId h)] w1 =
           (Inr rows, w') \<and>
         rows \<noteq> [] \<and> u = with_dates (hd rows)"
    by (auto simp: UserRepository_createAsync_def promise_defs
        split: prod.splits sum.splits list.splits)
next
  assume "email d \<notin> set (map email (users (database v)))"
  then show "\<exists>u v'. createAsync userRepository d v = (Inr u, v')"
    by (rule reference_createAsync)
next
  assume "i \<notin> set (map id' (users (database v)))"
  then show "updateAsync userRepository i p v = (Inr None, v)"
    by (rule reference_update_absent)
qed

text \<open>
  The new user of the service tests on the reference pool, and on a pool whose reads return
  no rows.
\<close>

theorem createAsync_first_row_witness:
  "UserRepository_createAsync pool logger_error charlie mockWorld =
     (Inr (with_dates charlieRow), charlieInserted)
 \<and> UserRepository_createAsync pool_reading_nothing logger_error charlie mockWorld =
     (Inl (TypeError ''Cannot read properties of undefined (reading 'createdAt')''),
      logger_error ''Error creating user: Cannot read properties of undefined (reading 'createdAt')''
        charlieInserted)
 \<and> updateAsync userRepository 999
     \<lparr>name_opt = Some ''Updated Name'', email_opt = None, age_opt = None\<rparr> mockWorld =
     (Inr None, mockWorld)"
proof -
  have absent: "999 \<notin> set (map id' (users (database mockWorld)))"
    by (simp add: mockWorld_def mockUsers_def)
  from createAsync_first_row [where pl = pool and lg = logger_error and w = mockWorld
      and d = charlie, THEN conjunct1, rule_format,
      OF conjI [OF reference_insert_charlie(1) reference_insert_charlie(2)]]
  have a: "UserRepository_createAsync pool logger_error charlie mockWorld =
     (Inr (with_dates charlieRow), charlieInserted)"
    by simp
  from createAsync_first_row [where pl = pool_reading_nothing and lg = logger_error
      and w = mockWorld and d = charlie, THEN conjunct1, rule_format,
      OF conjI [OF reference_insert_charlie(3) reference_insert_charlie(4)]]
  have b: "UserRepository_createAsync pool_reading_nothing logger_error charlie mockWorld =
     (Inl (TypeError ''Cannot read properties of undefined (reading 'createdAt')''),
      logger_error ''Error creating user: Cannot read properties of undefined (reading 'createdAt')''
        charlieInserted)"
    by simp
  from createAsync_first_row [where v = mockWorld and i = 999,
      THEN conjunct2, THEN conjunct2, THEN conjunct2, rule_format, OF absent]
  have c: "updateAsync userRepository 999
     \<lparr>name_opt = Some ''Updated Name'', email_opt = None, age_opt = None\<rparr> mockWorld =
     (Inr None, mockWorld)" .
  from a b c show ?thesis by simp
qed

end
